theory Spec2Isabelle
  imports Complex_Main
begin

section \<open>JavaScript numbers\<close>

text \<open>
  The program computes on JavaScript numbers. A finite number is a real. Where the
  program adds or subtracts angles before taking a remainder (in the normalisation, for
  the velocity arrow and for the compass heading) the result is rounded to binary64 as
  the program rounds it (\<open>binary64\<close> below); the other arithmetic is exact.
  \<open>js_number\<close> is what an azimuth can hold: a
  finite number, one of the three values \<open>isFinite\<close> rejects, or \<open>null\<close>, which
  \<open>isFinite\<close> and \<open>%\<close> convert to 0. Elsewhere a field that may hold \<open>null\<close> or
  \<open>undefined\<close> is an \<open>option\<close>, with \<open>None\<close> for the absent value.
\<close>

datatype js_number = Finite real | PosInfinity | NegInfinity | NaN | Null

fun isFinite :: "js_number \<Rightarrow> bool" where
  "isFinite (Finite x) = True"
| "isFinite PosInfinity = False"
| "isFinite NegInfinity = False"
| "isFinite NaN = False"
| "isFinite Null = True"

text \<open>\<open>v || 0\<close> on a number or null: null, undefined and 0 all give 0.\<close>

fun or_zero :: "real option \<Rightarrow> real" where
  "or_zero None = 0"
| "or_zero (Some v) = v"

text \<open>\<open>Math.trunc\<close>, and the remainder operator \<open>%\<close>, whose result has the sign of the dividend.\<close>

definition js_trunc :: "real \<Rightarrow> int" where
  "js_trunc x = (if x < 0 then \<lceil>x\<rceil> else \<lfloor>x\<rfloor>)"

definition js_rem :: "real \<Rightarrow> real \<Rightarrow> real" where
  "js_rem x y = x - y * of_int (js_trunc (x / y))"

text \<open>\<open>Math.round\<close>: the nearest integer, a tie going up.\<close>

definition js_round :: "real \<Rightarrow> int" where
  "js_round x = \<lfloor>x + 1 / 2\<rfloor>"

text \<open>
  Rounding to binary64: to the nearest multiple of the spacing at the magnitude of \<open>x\<close>
  (53 significant bits, the subnormal spacing below \<open>2 powr - 1022\<close>), a tie going to the
  even multiple. Overflow is left out: what is rounded here lies below 1024 in magnitude.
\<close>

definition round_half_even :: "real \<Rightarrow> int" where
  "round_half_even y =
     (let f = \<lfloor>y\<rfloor>; d = y - of_int f
      in if d < 1 / 2 then f
         else if 1 / 2 < d then f + 1
         else if even f then f else f + 1)"

definition binary64 :: "real \<Rightarrow> real" where
  "binary64 x =
     (if x = 0 then 0
      else let e = max \<lfloor>log 2 \<bar>x\<bar>\<rfloor> (- 1022);
               ulp = 2 powr (of_int e - 52)
           in ulp * of_int (round_half_even (x / ulp)))"

text \<open>
  The expression \<open>((x % 360) + 360) % 360\<close>, written out three times in the source. The
  remainder of two binary64 numbers is a binary64 number, so \<open>%\<close> does not round; the
  sum does.
\<close>

definition normalize360 :: "real \<Rightarrow> real" where
  "normalize360 x = js_rem (binary64 (js_rem x 360 + 360)) 360"

section \<open>Audio engine (js/audio.js)\<close>

datatype audio_context = AudioContext

datatype wave_shape = Sine | Square | Sawtooth | Triangle

record tone =
  frequency :: real
  duration :: real
  shape :: wave_shape

record AudioEngine =
  audioContext :: "audio_context option"
  isUnlocked :: bool
  lastBeepTime :: int
  debounceMs :: int

definition new_AudioEngine :: AudioEngine where
  "new_AudioEngine =
     \<lparr>audioContext = None, isUnlocked = False, lastBeepTime = 0, debounceMs = 1000\<rparr>"

text \<open>
  \<open>unlock\<close> runs platform calls inside \<open>try\<close>; where they throw is an input of the model:
  the constructor of the context, a later call, or nowhere.
\<close>

datatype unlock_outcome = UnlockCompletes | ContextCtorThrows | AfterContextThrows

fun unlock :: "unlock_outcome \<Rightarrow> AudioEngine \<Rightarrow> bool \<times> AudioEngine" where
  "unlock outcome e =
     (if isUnlocked e then (True, e)
      else case outcome of
        ContextCtorThrows \<Rightarrow> (False, e)
      | AfterContextThrows \<Rightarrow> (False, e\<lparr>audioContext := Some AudioContext\<rparr>)
      | UnlockCompletes \<Rightarrow> (True, e\<lparr>audioContext := Some AudioContext, isUnlocked := True\<rparr>))"

text \<open>
  \<open>playBeep\<close> reads the clock (\<open>now\<close>, the value of \<open>Date.now()\<close>) and drives the
  oscillator inside \<open>try\<close>; \<open>synth_throws\<close> says whether one of those Web Audio calls
  throws. The result is the returned boolean, the engine afterwards, and the tone that
  was started, if any.
\<close>

definition playBeep ::
  "int \<Rightarrow> bool \<Rightarrow> real \<Rightarrow> real \<Rightarrow> wave_shape \<Rightarrow> AudioEngine \<Rightarrow> bool \<times> AudioEngine \<times> tone option" where
  "playBeep now synth_throws freq dur type e =
     (if \<not> isUnlocked e \<or> audioContext e = None then (False, e, None)
      else if now - lastBeepTime e < debounceMs e then (False, e, None)
      else let e' = e\<lparr>lastBeepTime := now\<rparr> in
        if synth_throws then (False, e', None)
        else (True, e', Some \<lparr>frequency = freq, duration = dur, shape = type\<rparr>))"

definition playBrakeAlert :: "int \<Rightarrow> bool \<Rightarrow> AudioEngine \<Rightarrow> bool \<times> AudioEngine \<times> tone option" where
  "playBrakeAlert now synth_throws e = playBeep now synth_throws 880 150 Sine e"

definition setDebounce :: "int \<Rightarrow> AudioEngine \<Rightarrow> AudioEngine" where
  "setDebounce ms e = e\<lparr>debounceMs := ms\<rparr>"

section \<open>Unit and geo utilities (static methods of SensorManager)\<close>

definition directions :: "string list" where
  "directions = [''N'', ''NE'', ''E'', ''SE'', ''S'', ''SW'', ''W'', ''NW'', ''N'']"

text \<open>An index outside the array reads \<open>undefined\<close>: \<open>None\<close>.\<close>

definition bearingToCardinal :: "real \<Rightarrow> string option" where
  "bearingToCardinal bearing =
     (let index = js_round (bearing / 45)
      in if 0 \<le> index \<and> index < int (length directions)
         then Some (directions ! nat index) else None)"

text \<open>
  \<open>toDMS\<close> up to the formatting of the text: the seconds are kept as the number that
  \<open>toFixed(3)\<close> is applied to.
\<close>

record dms =
  dms_degrees :: int
  dms_minutes :: int
  dms_seconds :: real
  dms_direction :: string

definition toDMS :: "real \<Rightarrow> bool \<Rightarrow> dms" where
  "toDMS decimal isLatitude =
     (let absolute = \<bar>decimal\<bar>;
          degrees = \<lfloor>absolute\<rfloor>;
          minutesFloat = (absolute - of_int degrees) * 60;
          minutes = \<lfloor>minutesFloat\<rfloor>;
          seconds = (minutesFloat - of_int minutes) * 60;
          direction = (if isLatitude then (if decimal \<ge> 0 then ''N'' else ''S'')
                       else (if decimal \<ge> 0 then ''E'' else ''W''))
      in \<lparr>dms_degrees = degrees, dms_minutes = minutes, dms_seconds = seconds,
          dms_direction = direction\<rparr>)"

section \<open>Samples handed to the application\<close>

text \<open>
  The three objects a sensor source passes to its callbacks. Speed and bearing may be
  absent; the azimuth is whatever number the source computed.
\<close>

record gps_data =
  gps_latitude :: real
  gps_longitude :: real
  gps_speed :: "real option"
  gps_bearing :: "real option"
  gps_accuracy :: real
  gps_timestamp :: int

record orientation_data =
  ori_azimuth :: js_number
  ori_initialAzimuth :: js_number
  ori_beta :: "real option"
  ori_gamma :: "real option"

record motion_data =
  mot_x :: real
  mot_y :: real
  mot_z :: real
  mot_magnitude :: real
  mot_forward :: real

section \<open>Main application (VelocitatsApp)\<close>

text \<open>
  The page elements the handlers write to. A number shown as text is kept as the number
  (\<open>toFixed\<close> is not modelled); a rotation set through \<open>anime.set\<close> is the angle; the
  polygon is its three computed ordinates \<open>tipY\<close>, \<open>baseY\<close>, \<open>midY\<close>.
\<close>

datatype indicator = IndicatorOff | IndicatorActive | IndicatorError

datatype card_class = CardPlain | CardBraking | CardAccelerating

record elements =
  gpsStatus :: indicator
  motionStatus :: indicator
  wakelockStatus :: indicator
  speedMs :: real
  speedKmh :: real
  bearingText :: int
  bearingDirection :: "string option"
  accelerationText :: real
  accelStatus :: string
  accelCard :: card_class
  latitudeText :: dms
  longitudeText :: dms
  northArrow :: real
  velocityArrow :: real
  velocityPolygon :: "real \<times> real \<times> real"
  brakeIndicatorHidden :: bool

record VelocitatsApp =
  audio :: AudioEngine
  SPEED_THRESHOLD :: real
  BRAKE_THRESHOLD :: real
  ui :: elements
  currentSpeed :: real
  currentBearing :: real
  currentAzimuth :: real
  currentAcceleration :: real
  isBraking :: bool

text \<open>What a handler asks of its collaborators, in call order.\<close>

datatype effect =
  BrakeAlertRequested "tone option"
| IndicatorShown
| IndicatorHidden

definition updateStatusIndicator :: "string \<Rightarrow> bool \<Rightarrow> bool \<Rightarrow> VelocitatsApp \<Rightarrow> VelocitatsApp" where
  "updateStatusIndicator sensor active error s =
     (let cls = (if error then IndicatorError else if active then IndicatorActive else IndicatorOff)
      in if sensor = ''gps'' then s\<lparr>ui := (ui s)\<lparr>gpsStatus := cls\<rparr>\<rparr>
         else if sensor = ''motion'' \<or> sensor = ''orientation'' then s\<lparr>ui := (ui s)\<lparr>motionStatus := cls\<rparr>\<rparr>
         else if sensor = ''wakelock'' then s\<lparr>ui := (ui s)\<lparr>wakelockStatus := cls\<rparr>\<rparr>
         else s)"

definition arrowLength :: "real \<Rightarrow> real" where
  "arrowLength speed =
     (let minLength = 35; maxLength = 70; maxSpeed = 30;
          speedRatio = min (speed / maxSpeed) 1
      in minLength + (maxLength - minLength) * speedRatio)"

definition updateVelocityArrow :: "VelocitatsApp \<Rightarrow> VelocitatsApp" where
  "updateVelocityArrow s =
     (let rotation = normalize360 (binary64 (currentBearing s - currentAzimuth s));
          len = arrowLength (currentSpeed s);
          tipY = 100 - len;
          baseY = 100 - len + 35;
          midY = 100 - len + 25
      in s\<lparr>ui := (ui s)\<lparr>velocityPolygon := (tipY, baseY, midY), velocityArrow := rotation\<rparr>\<rparr>)"

definition handleGpsUpdate :: "gps_data \<Rightarrow> VelocitatsApp \<Rightarrow> VelocitatsApp" where
  "handleGpsUpdate data s =
     (let s1 = s\<lparr>currentSpeed := or_zero (gps_speed data),
                 currentBearing := or_zero (gps_bearing data)\<rparr>;
          u1 = (ui s1)\<lparr>speedMs := currentSpeed s1, speedKmh := currentSpeed s1 * 3.6\<rparr>;
          u2 = (case gps_bearing data of
                  None \<Rightarrow> u1
                | Some b \<Rightarrow> u1\<lparr>bearingText := js_round b, bearingDirection := bearingToCardinal b\<rparr>);
          u3 = u2\<lparr>latitudeText := toDMS (gps_latitude data) True,
                   longitudeText := toDMS (gps_longitude data) False\<rparr>
      in updateStatusIndicator ''gps'' True False (updateVelocityArrow (s1\<lparr>ui := u3\<rparr>)))"

text \<open>
  \<open>isFinite\<close> lets a number and \<open>null\<close> through; \<open>null % 360\<close> is \<open>0 % 360\<close>.
\<close>

definition handleOrientationUpdate :: "orientation_data \<Rightarrow> VelocitatsApp \<Rightarrow> VelocitatsApp" where
  "handleOrientationUpdate data s =
     (if \<not> isFinite (ori_azimuth data) then s
      else
        (let azimuth = normalize360 (case ori_azimuth data of Finite a \<Rightarrow> a | _ \<Rightarrow> 0);
             s1 = s\<lparr>currentAzimuth := azimuth\<rparr>;
             northRotation = - azimuth
         in updateVelocityArrow (s1\<lparr>ui := (ui s1)\<lparr>northArrow := northRotation\<rparr>\<rparr>)))"

definition getAccelDescription :: "real \<Rightarrow> string" where
  "getAccelDescription forward =
     (if forward < -5 then ''Hard braking''
      else if forward < -2 then ''Braking''
      else if forward > 5 then ''Hard acceleration''
      else if forward > 2 then ''Accelerating''
      else ''Steady'')"

definition checkBraking :: "int \<Rightarrow> bool \<Rightarrow> real \<Rightarrow> VelocitatsApp \<Rightarrow> VelocitatsApp \<times> effect list" where
  "checkBraking now synth_throws forwardAccel s =
     (let isMoving = currentSpeed s > SPEED_THRESHOLD s;
          isHardBraking = forwardAccel < BRAKE_THRESHOLD s
      in if isMoving \<and> isHardBraking then
           (if \<not> isBraking s then
              (case playBrakeAlert now synth_throws (audio s) of
                 (played, audio', sound) \<Rightarrow>
                   (s\<lparr>isBraking := True, audio := audio',
                      ui := (ui s)\<lparr>brakeIndicatorHidden := False\<rparr>\<rparr>,
                    [BrakeAlertRequested sound, IndicatorShown]))
            else (s, []))
         else
           (if isBraking s then
              (s\<lparr>isBraking := False, ui := (ui s)\<lparr>brakeIndicatorHidden := True\<rparr>\<rparr>,
               [IndicatorHidden])
            else (s, [])))"

definition handleMotionUpdate :: "int \<Rightarrow> bool \<Rightarrow> motion_data \<Rightarrow> VelocitatsApp \<Rightarrow> VelocitatsApp \<times> effect list" where
  "handleMotionUpdate now synth_throws data s =
     (let s1 = s\<lparr>currentAcceleration := mot_forward data\<rparr>;
          card = (if mot_forward data < -2 then CardBraking
                  else if mot_forward data > 2 then CardAccelerating else CardPlain);
          s2 = s1\<lparr>ui := (ui s1)\<lparr>accelerationText := mot_magnitude data,
                                  accelStatus := getAccelDescription (mot_forward data),
                                  accelCard := card\<rparr>\<rparr>
      in checkBraking now synth_throws (mot_forward data) (updateStatusIndicator ''motion'' True False s2))"

text \<open>
  The constructor, given the elements found on the page. (\<open>loadSettings\<close> may then
  replace the two thresholds by stored values.)
\<close>

definition new_VelocitatsApp :: "elements \<Rightarrow> VelocitatsApp" where
  "new_VelocitatsApp page =
     \<lparr>audio = new_AudioEngine, SPEED_THRESHOLD = 0.5, BRAKE_THRESHOLD = - 2.0, ui = page,
      currentSpeed = 0, currentBearing = 0, currentAzimuth = 0, currentAcceleration = 0,
      isBraking = False\<rparr>"

text \<open>
  A page on which nothing has been shown yet, to run the handlers on concrete inputs;
  the markup itself is not part of the sources.
\<close>

definition blank_page :: elements where
  "blank_page =
     \<lparr>gpsStatus = IndicatorOff, motionStatus = IndicatorOff, wakelockStatus = IndicatorOff,
      speedMs = 0, speedKmh = 0, bearingText = 0, bearingDirection = None,
      accelerationText = 0, accelStatus = [], accelCard = CardPlain,
      latitudeText = toDMS 0 True, longitudeText = toDMS 0 False,
      northArrow = 0, velocityArrow = 0, velocityPolygon = (65, 100, 90),
      brakeIndicatorHidden = True\<rparr>"

text \<open>Samples for running the handlers: a position fix and a motion reading.\<close>

definition gps_fix :: "real option \<Rightarrow> real option \<Rightarrow> gps_data" where
  "gps_fix v b =
     \<lparr>gps_latitude = 41.3851, gps_longitude = 2.1734, gps_speed = v, gps_bearing = b,
      gps_accuracy = 5, gps_timestamp = 0\<rparr>"

definition motion_of :: "real \<Rightarrow> motion_data" where
  "motion_of f = \<lparr>mot_x = 0, mot_y = f, mot_z = 0, mot_magnitude = \<bar>f\<bar>, mot_forward = f\<rparr>"

definition azimuth_of :: "js_number \<Rightarrow> orientation_data" where
  "azimuth_of a = \<lparr>ori_azimuth = a, ori_initialAzimuth = a, ori_beta = Some 0, ori_gamma = Some 0\<rparr>"

section \<open>Sensor sources\<close>

text \<open>
  Both sources carry the same three callback slots; a slot is \<open>True\<close> when a callback
  is installed. What a source hands to its callbacks is the list of samples it returns.
\<close>

record callbacks =
  onGpsUpdate :: bool
  onOrientationUpdate :: bool
  onMotionUpdate :: bool

datatype sample =
  GpsSample gps_data
| OrientationSample orientation_data
| MotionSample motion_data
| ErrorReport string string

subsection \<open>Synthetic source (SensorSimulator)\<close>

datatype scenario_name = Accelerate | Cruise | Brake | Stop

text \<open>
  \<open>activeIntervals\<close> is the platform's side of \<open>setInterval\<close>/\<open>clearInterval\<close>: the
  timers that still fire.
\<close>

record SensorSimulator = callbacks +
  isRunning :: bool
  intervalId :: "nat option"
  time :: real
  latitude :: real
  longitude :: real
  speed :: real
  bearing :: real
  azimuth :: real
  acceleration :: real
  scenario :: scenario_name
  scenarioTime :: real
  activeIntervals :: "nat list"

definition new_SensorSimulator :: SensorSimulator where
  "new_SensorSimulator =
     \<lparr>onGpsUpdate = False, onOrientationUpdate = False, onMotionUpdate = False,
      isRunning = False, intervalId = None, time = 0,
      latitude = 41.3851, longitude = 2.1734, speed = 0, bearing = 0, azimuth = 0,
      acceleration = 0, scenario = Cruise, scenarioTime = 0, activeIntervals = []\<rparr>"

text \<open>The values \<open>Math.random()\<close> returns during one tick, one field per call site.\<close>

record draws =
  rnd_dwell :: real
  rnd_choice :: real
  rnd_noise :: real
  rnd_magnitude :: real

definition updateScenario :: "draws \<Rightarrow> SensorSimulator \<Rightarrow> SensorSimulator" where
  "updateScenario d s =
     (let s' =
        (case scenario s of
           Accelerate \<Rightarrow>
             (let s1 = s\<lparr>speed := min (speed s + 0.5) 15, acceleration := 2.5\<rparr>
              in if scenarioTime s1 > 5 then s1\<lparr>scenario := Cruise, scenarioTime := 0\<rparr> else s1)
         | Cruise \<Rightarrow>
             (let s1 = s\<lparr>acceleration := sin (time s * 0.5) * 0.5,
                         bearing := bearing s + sin (time s * 0.3) * 0.5,
                         azimuth := azimuth s + sin (time s * 0.2) * 0.3\<rparr>
              in if scenarioTime s1 > 8 + rnd_dwell d * 4
                 then s1\<lparr>scenario := (if rnd_choice d > 0.3 then Brake else Accelerate),
                         scenarioTime := 0\<rparr>
                 else s1)
         | Brake \<Rightarrow>
             (let s1 = s\<lparr>speed := max (speed s - 2.5) 0, acceleration := - 7.0\<rparr>
              in if scenarioTime s1 > 2 \<or> speed s1 \<le> 0
                 then s1\<lparr>scenario := (if speed s1 \<le> 0 then Stop else Cruise), scenarioTime := 0\<rparr>
                 else s1)
         | Stop \<Rightarrow>
             (let s1 = s\<lparr>speed := 0, acceleration := 0\<rparr>
              in if scenarioTime s1 > 3 then s1\<lparr>scenario := Accelerate, scenarioTime := 0\<rparr> else s1))
      in s'\<lparr>bearing := normalize360 (bearing s'), azimuth := normalize360 (azimuth s')\<rparr>)"

definition updatePosition :: "SensorSimulator \<Rightarrow> SensorSimulator" where
  "updatePosition s =
     (if speed s \<le> 0 then s
      else let dt = 1 / 30;
               distance = speed s * dt;
               bearingRad = bearing s * pi / 180;
               R = 6371000;
               latRad = latitude s * pi / 180;
               dLat = (distance * cos bearingRad) / R;
               dLng = (distance * sin bearingRad) / (R * cos latRad)
           in s\<lparr>latitude := latitude s + dLat * 180 / pi,
                longitude := longitude s + dLng * 180 / pi\<rparr>)"

definition sendUpdates :: "int \<Rightarrow> draws \<Rightarrow> SensorSimulator \<Rightarrow> sample list" where
  "sendUpdates now d s =
     (if onGpsUpdate s
      then [GpsSample \<lparr>gps_latitude = latitude s, gps_longitude = longitude s,
                       gps_speed = Some (speed s), gps_bearing = Some (bearing s),
                       gps_accuracy = 5, gps_timestamp = now\<rparr>]
      else []) @
     (if onOrientationUpdate s
      then [OrientationSample \<lparr>ori_azimuth = Finite (azimuth s), ori_initialAzimuth = Finite 0,
                               ori_beta = Some 0, ori_gamma = Some 0\<rparr>]
      else []) @
     (if onMotionUpdate s
      then (let noise = (rnd_noise d - 0.5) * 0.5
            in [MotionSample \<lparr>mot_x = noise, mot_y = acceleration s + noise, mot_z = noise,
                               mot_magnitude = \<bar>acceleration s\<bar> + rnd_magnitude d * 0.5,
                               mot_forward = acceleration s\<rparr>])
      else [])"

definition tick :: "int \<Rightarrow> draws \<Rightarrow> SensorSimulator \<Rightarrow> SensorSimulator \<times> sample list" where
  "tick now d s =
     (let s1 = s\<lparr>time := time s + 1 / 30\<rparr>;
          s2 = s1\<lparr>scenarioTime := scenarioTime s1 + 1 / 30\<rparr>;
          s3 = updateScenario d s2;
          s4 = updatePosition s3
      in (s4, sendUpdates now d s4))"

text \<open>A run of ticks, one clock reading and one set of draws per tick.\<close>

fun ticks :: "(int \<times> draws) list \<Rightarrow> SensorSimulator \<Rightarrow> SensorSimulator" where
  "ticks [] s = s"
| "ticks ((now, d) # rest) s = ticks rest (fst (tick now d s))"

text \<open>\<open>start\<close> takes the handle that \<open>setInterval\<close> returns.\<close>

definition start :: "nat \<Rightarrow> SensorSimulator \<Rightarrow> SensorSimulator" where
  "start handle s =
     (if isRunning s then s
      else s\<lparr>isRunning := True, intervalId := Some handle,
             activeIntervals := handle # activeIntervals s\<rparr>)"

definition simulator_stop :: "SensorSimulator \<Rightarrow> SensorSimulator" where
  "simulator_stop s =
     (let s1 = (case intervalId s of
                  None \<Rightarrow> s
                | Some handle \<Rightarrow>
                    if handle = 0 then s
                    else s\<lparr>activeIntervals := removeAll handle (activeIntervals s),
                           intervalId := None\<rparr>)
      in s1\<lparr>isRunning := False\<rparr>)"

text \<open>The platform firing interval timer \<open>handle\<close>: the registered closure calls \<open>tick\<close>.\<close>

definition interval_fires :: "nat \<Rightarrow> int \<Rightarrow> draws \<Rightarrow> SensorSimulator \<Rightarrow> SensorSimulator \<times> sample list" where
  "interval_fires handle now d s =
     (if handle \<in> set (activeIntervals s) then tick now d s else (s, []))"

definition triggerBrake :: "SensorSimulator \<Rightarrow> SensorSimulator" where
  "triggerBrake s = s\<lparr>scenario := Brake, scenarioTime := 0\<rparr>"

text \<open>The states of the simulator that ticks can lead to from the constructed one.\<close>

inductive reachable :: "SensorSimulator \<Rightarrow> bool" where
  reachable_new: "reachable new_SensorSimulator"
| reachable_tick: "reachable s \<Longrightarrow> reachable (fst (tick now d s))"

subsection \<open>Live source (SensorManager)\<close>

text \<open>
  The platform's event objects, with \<open>None\<close> for a null field. The compass heading is
  a property only some platforms define: \<open>None\<close> where it is undefined, \<open>Some Null\<close>
  where it is null.
\<close>

record coordinates =
  c_latitude :: real
  c_longitude :: real
  c_speed :: "real option"
  c_heading :: "real option"
  c_accuracy :: real

record geo_position =
  coords :: coordinates
  pos_timestamp :: int

record orientation_event =
  ev_webkitCompassHeading :: "js_number option"
  ev_alpha :: "real option"
  ev_absolute :: bool
  ev_beta :: "real option"
  ev_gamma :: "real option"

record accel =
  acc_x :: "real option"
  acc_y :: "real option"
  acc_z :: "real option"

record motion_event =
  ev_acceleration :: "accel option"
  ev_accelerationIncludingGravity :: "accel option"

datatype event_name = Deviceorientationabsolute | Deviceorientation | Devicemotion

text \<open>
  Besides the fields of the class, the record holds what the class leaves with the
  platform: the position watches registered with \<open>navigator.geolocation\<close>, the
  listeners added to \<open>window\<close>, the liveness timeouts still pending, and the variables
  captured by the two listener closures.
\<close>

record SensorManager = callbacks +
  onError :: bool
  gpsWatchId :: "nat option"
  hasMotionPermission :: bool
  hasOrientationPermission :: bool
  lastPosition :: "gps_data option"
  lastAzimuth :: js_number
  lastAcceleration :: "motion_data option"
  initialAzimuth :: js_number
  geoWatches :: "nat list"
  windowListeners :: "event_name list"
  pendingTimeouts :: "event_name list"
  usingAbsolute :: bool
  orientationReceived :: bool
  motionReceived :: bool

definition new_SensorManager :: SensorManager where
  "new_SensorManager =
     \<lparr>onGpsUpdate = False, onOrientationUpdate = False, onMotionUpdate = False,
      onError = False, gpsWatchId = None, hasMotionPermission = False,
      hasOrientationPermission = False, lastPosition = None, lastAzimuth = Null,
      lastAcceleration = None, initialAzimuth = Null, geoWatches = [], windowListeners = [],
      pendingTimeouts = [], usingAbsolute = False, orientationReceived = False,
      motionReceived = False\<rparr>"

definition handleError :: "string \<Rightarrow> string \<Rightarrow> SensorManager \<Rightarrow> sample list" where
  "handleError sensor message m = (if onError m then [ErrorReport sensor message] else [])"

text \<open>\<open>startGps\<close> where geolocation exists: \<open>watchPosition\<close> returns the watch \<open>handle\<close>.\<close>

definition startGps :: "nat \<Rightarrow> SensorManager \<Rightarrow> SensorManager" where
  "startGps handle m = m\<lparr>gpsWatchId := Some handle, geoWatches := handle # geoWatches m\<rparr>"

text \<open>The success callback given to \<open>watchPosition\<close>.\<close>

definition positionCallback :: "geo_position \<Rightarrow> SensorManager \<Rightarrow> SensorManager \<times> sample list" where
  "positionCallback position m =
     (let data = \<lparr>gps_latitude = c_latitude (coords position),
                  gps_longitude = c_longitude (coords position),
                  gps_speed = Some (or_zero (c_speed (coords position))),
                  gps_bearing = Some (or_zero (c_heading (coords position))),
                  gps_accuracy = c_accuracy (coords position),
                  gps_timestamp = pos_timestamp position\<rparr>;
          m1 = m\<lparr>lastPosition := Some data\<rparr>
      in (m1, if onGpsUpdate m1 then [GpsSample data] else []))"

definition startOrientation :: "bool \<Rightarrow> SensorManager \<Rightarrow> SensorManager" where
  "startOrientation absolute_supported m =
     m\<lparr>usingAbsolute := absolute_supported,
       orientationReceived := False,
       windowListeners :=
         (if absolute_supported then Deviceorientationabsolute else Deviceorientation)
           # windowListeners m,
       pendingTimeouts := Deviceorientation # pendingTimeouts m,
       hasOrientationPermission := True\<rparr>"

text \<open>
  The listener logs \<open>azimuth.toFixed(1)\<close> on the first event it accepts, after setting
  \<open>hasReceivedData\<close>; on a null heading that call throws and the listener ends there.
\<close>

definition handleOrientation :: "orientation_event \<Rightarrow> SensorManager \<Rightarrow> SensorManager \<times> sample list" where
  "handleOrientation event m =
     (let computed =
        (case ev_webkitCompassHeading event of
           Some h \<Rightarrow> Some h
         | None \<Rightarrow>
             (case ev_alpha event of
                Some a \<Rightarrow>
                  if ev_absolute event \<or> usingAbsolute m
                  then Some (Finite (js_rem (binary64 (360 - a)) 360))
                  else Some (Finite a)
              | None \<Rightarrow> None))
      in case computed of
           None \<Rightarrow> (m, [])
         | Some az \<Rightarrow>
             if \<not> orientationReceived m \<and> az = Null
             then (m\<lparr>orientationReceived := True\<rparr>, [])
             else
               (let m1 = m\<lparr>orientationReceived := True\<rparr>;
                    m2 = (if initialAzimuth m1 = Null then m1\<lparr>initialAzimuth := az\<rparr> else m1);
                    m3 = m2\<lparr>lastAzimuth := az\<rparr>
                in (m3,
                    if onOrientationUpdate m3
                    then [OrientationSample
                            \<lparr>ori_azimuth = az, ori_initialAzimuth = initialAzimuth m3,
                             ori_beta = ev_beta event, ori_gamma = ev_gamma event\<rparr>]
                    else [])))"

definition startMotion :: "SensorManager \<Rightarrow> SensorManager" where
  "startMotion m =
     m\<lparr>motionReceived := False,
       windowListeners := Devicemotion # windowListeners m,
       pendingTimeouts := Devicemotion # pendingTimeouts m,
       hasMotionPermission := True\<rparr>"

definition handleMotion :: "motion_event \<Rightarrow> SensorManager \<Rightarrow> SensorManager \<times> sample list" where
  "handleMotion event m =
     (case (case ev_acceleration event of
              Some a \<Rightarrow> Some a
            | None \<Rightarrow> ev_accelerationIncludingGravity event) of
        None \<Rightarrow> (m, [])
      | Some a \<Rightarrow>
          if acc_x a = None \<and> acc_y a = None \<and> acc_z a = None then (m, [])
          else
            (let m1 = m\<lparr>motionReceived := True\<rparr>;
                 magnitude = sqrt ((or_zero (acc_x a))\<^sup>2 + (or_zero (acc_y a))\<^sup>2
                                   + (or_zero (acc_z a))\<^sup>2);
                 forwardAccel = or_zero (acc_y a);
                 data = \<lparr>mot_x = or_zero (acc_x a), mot_y = or_zero (acc_y a),
                         mot_z = or_zero (acc_z a), mot_magnitude = magnitude,
                         mot_forward = forwardAccel\<rparr>;
                 m2 = m1\<lparr>lastAcceleration := Some data\<rparr>
             in (m2, if onMotionUpdate m2 then [MotionSample data] else [])))"

definition sensors_stop :: "SensorManager \<Rightarrow> SensorManager" where
  "sensors_stop m =
     (case gpsWatchId m of
        None \<Rightarrow> m
      | Some handle \<Rightarrow> m\<lparr>geoWatches := removeAll handle (geoWatches m), gpsWatchId := None\<rparr>)"

text \<open>
  What the platform does with the manager's registrations: a position fix reaches the
  success callback of a watch that is still registered, a window event reaches the
  listener added for its name, and a 2 s liveness timeout runs once.
\<close>

datatype platform_event =
  PositionFix nat geo_position
| OrientationFired event_name orientation_event
| MotionFired motion_event
| TimeoutFired event_name

fun dispatch :: "platform_event \<Rightarrow> SensorManager \<Rightarrow> SensorManager \<times> sample list" where
  "dispatch (PositionFix handle position) m =
     (if handle \<in> set (geoWatches m) then positionCallback position m else (m, []))"
| "dispatch (OrientationFired name event) m =
     (if name \<noteq> Devicemotion \<and> name \<in> set (windowListeners m)
      then handleOrientation event m else (m, []))"
| "dispatch (MotionFired event) m =
     (if Devicemotion \<in> set (windowListeners m) then handleMotion event m else (m, []))"
| "dispatch (TimeoutFired name) m =
     (if name \<in> set (pendingTimeouts m)
      then (let m1 = m\<lparr>pendingTimeouts := remove1 name (pendingTimeouts m)\<rparr>
            in if name = Devicemotion
               then (m1, if \<not> motionReceived m1
                         then handleError ''motion'' ''Accelerometer not available on this device'' m1
                         else [])
               else (m1, if \<not> orientationReceived m1
                         then handleError ''orientation'' ''Compass not available on this device'' m1
                         else []))
      else (m, []))"

subsection \<open>Inputs for running the sources\<close>

text \<open>The three assignments by which \<open>VelocitatsApp.start\<close> installs its handlers on a source.\<close>

definition subscribe :: "'a callbacks_scheme \<Rightarrow> 'a callbacks_scheme" where
  "subscribe src = src\<lparr>onGpsUpdate := True, onOrientationUpdate := True, onMotionUpdate := True\<rparr>"

definition draws_of :: "real \<Rightarrow> draws" where
  "draws_of r = \<lparr>rnd_dwell = r, rnd_choice = r, rnd_noise = r, rnd_magnitude = r\<rparr>"

definition motion_event_of :: "real \<Rightarrow> motion_event" where
  "motion_event_of y =
     \<lparr>ev_acceleration = Some \<lparr>acc_x = Some 0, acc_y = Some y, acc_z = Some 0\<rparr>,
      ev_accelerationIncludingGravity = None\<rparr>"

definition compass_event_of :: "real \<Rightarrow> orientation_event" where
  "compass_event_of h =
     \<lparr>ev_webkitCompassHeading = Some (Finite h), ev_alpha = None, ev_absolute = True,
      ev_beta = Some 0, ev_gamma = Some 0\<rparr>"

definition position_of :: "real option \<Rightarrow> real option \<Rightarrow> geo_position" where
  "position_of v h =
     \<lparr>coords = \<lparr>c_latitude = 41.3851, c_longitude = 2.1734, c_speed = v, c_heading = h,
                 c_accuracy = 5\<rparr>,
      pos_timestamp = 0\<rparr>"

section \<open>Remainder and normalisation of angles\<close>

lemma js_rem_nonneg:
  assumes "0 \<le> x"
  shows "0 \<le> js_rem x 360 \<and> js_rem x 360 < 360"
proof -
  define q :: real where "q = of_int \<lfloor>x / 360\<rfloor>"
  have t: "js_rem x 360 = x - 360 * q"
    using assms by (simp add: js_rem_def js_trunc_def q_def)
  have "q \<le> x / 360" "x / 360 < q + 1"
    unfolding q_def by linarith+
  then have "360 * q \<le> x" "x < 360 * q + 360"
    by (simp_all add: field_simps)
  then show ?thesis
    unfolding t by simp
qed

lemma js_rem_neg:
  assumes "x < 0"
  shows "- 360 < js_rem x 360 \<and> js_rem x 360 \<le> 0"
proof -
  define q :: real where "q = of_int \<lceil>x / 360\<rceil>"
  have t: "js_rem x 360 = x - 360 * q"
    using assms by (simp add: js_rem_def js_trunc_def q_def)
  have "x / 360 \<le> q" "q < x / 360 + 1"
    unfolding q_def by linarith+
  then have "x \<le> 360 * q" "360 * q < x + 360"
    by (simp_all add: field_simps)
  then show ?thesis
    unfolding t by simp
qed

lemma js_rem_bounds: "- 360 < js_rem x 360 \<and> js_rem x 360 < 360"
  using js_rem_nonneg [of x] js_rem_neg [of x] by (cases "0 \<le> x") auto

lemma js_rem_shift: "\<exists>k::int. js_rem x 360 = x + 360 * of_int k"
proof
  show "js_rem x 360 = x + 360 * of_int (- js_trunc (x / 360))"
    by (simp add: js_rem_def)
qed

lemma js_rem_small: "0 \<le> x \<Longrightarrow> x < 360 \<Longrightarrow> js_rem x 360 = x"
proof -
  assume a: "0 \<le> x" "x < 360"
  then have "\<lfloor>x / 360\<rfloor> = 0" by (simp add: floor_eq_iff)
  with a show ?thesis by (simp add: js_rem_def js_trunc_def)
qed

lemma js_rem_small_neg: "- 360 < x \<Longrightarrow> x < 0 \<Longrightarrow> js_rem x 360 = x"
proof -
  assume a: "- 360 < x" "x < 0"
  then have "\<lceil>x / 360\<rceil> = 0" by (simp add: ceiling_eq_iff)
  with a show ?thesis by (simp add: js_rem_def js_trunc_def)
qed

lemma js_rem_once: "360 \<le> x \<Longrightarrow> x < 720 \<Longrightarrow> js_rem x 360 = x - 360"
proof -
  assume a: "360 \<le> x" "x < 720"
  then have "\<lfloor>x / 360\<rfloor> = 1" by (simp add: floor_eq_iff)
  with a show ?thesis by (simp add: js_rem_def js_trunc_def)
qed

section \<open>Rounding to binary64\<close>

lemma round_half_even_unique:
  assumes "\<bar>y - of_int n\<bar> < 1 / 2"
  shows "round_half_even y = n"
proof (cases "of_int n \<le> y")
  case True
  from assms have near: "y - of_int n < 1 / 2" by linarith
  from True near have "\<lfloor>y\<rfloor> = n" by (intro floor_unique) simp_all
  with near show ?thesis by (simp add: round_half_even_def Let_def)
next
  case False
  from assms have near: "- (1 / 2) < y - of_int n" by linarith
  have lo: "of_int (n - 1) \<le> y" using near by simp
  have hi: "y < of_int (n - 1) + 1" using False by simp
  from lo hi have f: "\<lfloor>y\<rfloor> = n - 1" by (rule floor_unique)
  have "1 / 2 < y - of_int (n - 1)" using near by simp
  then show ?thesis using f by (simp add: round_half_even_def Let_def)
qed

lemma round_half_even_near: "\<bar>of_int (round_half_even y) - y\<bar> \<le> 1 / 2"
proof -
  have "of_int \<lfloor>y\<rfloor> \<le> y" "y < of_int \<lfloor>y\<rfloor> + 1" by linarith+
  then show ?thesis by (auto simp add: round_half_even_def Let_def)
qed

lemma round_half_even_nonneg: "0 \<le> y \<Longrightarrow> 0 \<le> round_half_even y"
proof -
  assume "0 \<le> y"
  then have "0 \<le> \<lfloor>y\<rfloor>" by simp
  then show ?thesis by (simp add: round_half_even_def Let_def)
qed

lemma binary64_nonneg: "0 \<le> x \<Longrightarrow> 0 \<le> binary64 x"
  by (simp add: binary64_def Let_def round_half_even_nonneg)

lemma binary64_error:
  assumes "\<bar>x\<bar> < 1024"
  shows "\<bar>binary64 x - x\<bar> \<le> 1 / 2 ^ 44"
proof (cases "x = 0")
  case True
  then show ?thesis by (simp add: binary64_def)
next
  case False
  define e where "e = max \<lfloor>log 2 \<bar>x\<bar>\<rfloor> (- 1022)"
  define u :: real where "u = 2 powr (of_int e - 52)"
  have "log 2 \<bar>x\<bar> < log 2 1024" using assms False by (intro log_less) simp_all
  also have "log 2 1024 = 10"
    using log_nat_power [of 2 2 10] by simp
  finally have "\<lfloor>log 2 \<bar>x\<bar>\<rfloor> < 10" by linarith
  then have e9: "e \<le> 9" by (simp add: e_def)
  have upos: "0 < u" by (simp add: u_def)
  have "u \<le> 2 powr (- 43)"
    unfolding u_def using e9 by (intro powr_mono) simp_all
  also have "2 powr (- 43 :: real) = 1 / 2 ^ 43"
    by (simp add: powr_minus_divide)
  finally have usmall: "u \<le> 1 / 2 ^ 43" .
  have b: "binary64 x = u * of_int (round_half_even (x / u))"
    using False by (simp add: binary64_def Let_def e_def u_def)
  have "binary64 x - x = u * (of_int (round_half_even (x / u)) - x / u)"
    using upos by (simp add: b right_diff_distrib)
  then have "\<bar>binary64 x - x\<bar> = u * \<bar>of_int (round_half_even (x / u)) - x / u\<bar>"
    using upos by (simp add: abs_mult)
  also have "\<dots> \<le> u * (1 / 2)"
    using upos round_half_even_near [of "x / u"] by (intro mult_left_mono) simp_all
  also have "\<dots> \<le> 1 / 2 ^ 44" using usmall by simp
  finally show ?thesis .
qed

lemma binary64_exact:
  fixes k :: nat
  assumes "2 ^ k \<le> \<bar>x\<bar>" "\<bar>x\<bar> < 2 ^ (k + 1)" "k \<le> 52" "x * 2 ^ (52 - k) = of_int n"
  shows "binary64 x = x"
proof -
  have "(0::real) < 2 ^ k" by simp
  with assms(1) have "0 < \<bar>x\<bar>" by linarith
  then have x0: "x \<noteq> 0" by simp
  have p1: "2 powr (of_int (int k)) = (2::real) ^ k"
    using powr_realpow [of 2 k] by simp
  have p2: "2 powr (of_int (int k + 1)) = (2::real) ^ (k + 1)"
    using powr_realpow [of 2 "k + 1"] by (simp add: add.commute)
  have "2 powr (of_int (int k)) \<le> \<bar>x\<bar> \<and> \<bar>x\<bar> < 2 powr (of_int (int k + 1))"
    unfolding p1 p2 using assms(1,2) by simp
  then have fl: "\<lfloor>log 2 \<bar>x\<bar>\<rfloor> = int k"
    using x0 by (subst floor_log_eq_powr_iff) simp_all
  have u: "2 powr (of_int (max (int k) (- 1022)) - 52) = (1 / 2 ^ (52 - k) :: real)"
  proof -
    have "of_int (max (int k) (- 1022)) - (52::real) = - real (52 - k)"
      using assms(3) by simp
    then have "2 powr (of_int (max (int k) (- 1022)) - 52) = (2::real) powr (- real (52 - k))"
      by (rule arg_cong)
    also have "\<dots> = 1 / 2 powr (real (52 - k))"
      by (rule powr_minus_divide)
    also have "2 powr (real (52 - k)) = (2::real) ^ (52 - k)"
      by (rule powr_realpow) simp
    finally show ?thesis .
  qed
  have "x / (1 / 2 ^ (52 - k)) = of_int n" using assms(4) by simp
  then have r: "round_half_even (x / (1 / 2 ^ (52 - k))) = n"
    by (simp add: round_half_even_unique)
  have "binary64 x = (1 / 2 ^ (52 - k)) * of_int n"
    using x0 unfolding binary64_def Let_def fl u r by simp
  also have "\<dots> = x" using assms(4) [symmetric] by simp
  finally show ?thesis .
qed

lemma binary64_360: "binary64 360 = 360"
  by (rule binary64_exact [where k = 8 and n = "360 * 2 ^ 44"]) simp_all

lemma binary64_270: "binary64 270 = 270"
  by (rule binary64_exact [where k = 8 and n = "270 * 2 ^ 44"]) simp_all

lemma binary64_below_360: "binary64 (360 - 1 / 2 ^ 70) = 360"
proof -
  let ?x = "360 - 1 / 2 ^ 70 :: real"
  have x0: "?x \<noteq> 0" by simp
  have "2 powr (of_int 8) \<le> \<bar>?x\<bar> \<and> \<bar>?x\<bar> < 2 powr (of_int (8 + 1))"
    by simp
  then have fl: "\<lfloor>log 2 \<bar>?x\<bar>\<rfloor> = 8"
    using x0 by (subst floor_log_eq_powr_iff) simp_all
  have u: "2 powr (of_int (max 8 (- 1022)) - 52) = (1 / 2 ^ 44 :: real)"
    by (simp add: powr_minus_divide)
  have "\<bar>?x / (1 / 2 ^ 44) - of_int (360 * 2 ^ 44)\<bar> < 1 / 2"
    by simp
  then have r: "round_half_even (?x / (1 / 2 ^ 44)) = 360 * 2 ^ 44"
    by (rule round_half_even_unique)
  show ?thesis
    using x0 unfolding binary64_def Let_def fl u r by simp
qed

lemma binary64_450: "binary64 450 = 450"
  by (rule binary64_exact [where k = 8 and n = "450 * 2 ^ 44"]) simp_all

section \<open>Normalisation of angles\<close>

lemma normalize360_range: "0 \<le> normalize360 x \<and> normalize360 x < 360"
proof -
  have "0 \<le> js_rem x 360 + 360"
    using js_rem_bounds [of x] by simp
  then have "0 \<le> binary64 (js_rem x 360 + 360)"
    by (rule binary64_nonneg)
  then show ?thesis
    unfolding normalize360_def by (rule js_rem_nonneg)
qed

lemma normalize360_near:
  "\<exists>k::int. \<exists>err. \<bar>err\<bar> \<le> 1 / 2 ^ 44 \<and> normalize360 x = x + err + 360 * of_int k"
proof -
  define sum where "sum = js_rem x 360 + 360"
  define err where "err = binary64 sum - sum"
  obtain j :: int where j: "js_rem x 360 = x + 360 * of_int j"
    using js_rem_shift by blast
  obtain l :: int where l: "js_rem (binary64 sum) 360 = binary64 sum + 360 * of_int l"
    using js_rem_shift by blast
  have "\<bar>sum\<bar> < 1024"
    using js_rem_bounds [of x] by (simp add: sum_def)
  then have small: "\<bar>err\<bar> \<le> 1 / 2 ^ 44"
    unfolding err_def by (rule binary64_error)
  have "normalize360 x = x + err + 360 * of_int (j + 1 + l)"
    using j l by (simp add: normalize360_def sum_def [symmetric] err_def) (simp add: sum_def)
  with small show ?thesis by blast
qed

lemma normalize360_values:
  "normalize360 0 = 0" "normalize360 90 = 90" "normalize360 (- 90) = 270"
  by (simp_all add: normalize360_def js_rem_small js_rem_small_neg js_rem_once
      binary64_360 binary64_450 binary64_270)

lemma normalize360_below_zero: "normalize360 (- (1 / 2 ^ 70)) = 0"
proof -
  have r: "js_rem (- (1 / 2 ^ 70)) 360 = - (1 / 2 ^ 70)"
    by (rule js_rem_small_neg) simp_all
  have sum: "- (1 / 2 ^ 70) + 360 = (360 - 1 / 2 ^ 70 :: real)"
    by simp
  have "normalize360 (- (1 / 2 ^ 70)) = js_rem 360 360"
    by (simp only: normalize360_def r sum binary64_below_360)
  also have "\<dots> = 0" by (simp add: js_rem_once)
  finally show ?thesis .
qed

lemma not_whole_between:
  fixes x :: real
  assumes "0 < x" "x < 1"
  shows "x \<notin> \<int>"
proof
  assume "x \<in> \<int>"
  then obtain z :: int where z: "x = of_int z" by (auto elim: Ints_cases)
  with assms have "0 < z" "z < 1" by simp_all
  then show False by simp
qed

section \<open>Utilities: rounding, sectors, arrow length\<close>

lemma js_round_nearest: "\<bar>x - of_int (js_round x)\<bar> \<le> 1 / 2"
proof -
  have "of_int \<lfloor>x + 1 / 2\<rfloor> \<le> x + 1 / 2" "x + 1 / 2 < of_int \<lfloor>x + 1 / 2\<rfloor> + 1"
    by linarith+
  then show ?thesis unfolding js_round_def by linarith
qed

lemma directions_wrap:
  assumes "i < 9"
  shows "directions ! i = [''N'', ''NE'', ''E'', ''SE'', ''S'', ''SW'', ''W'', ''NW''] ! (i mod 8)"
proof -
  have every: "list_all
      (\<lambda>j. directions ! j = [''N'', ''NE'', ''E'', ''SE'', ''S'', ''SW'', ''W'', ''NW''] ! (j mod 8))
      [0..<9]"
    by (simp add: directions_def upt_rec)
  have "i \<in> set [0..<9]" using assms by simp
  with every show ?thesis unfolding list_all_iff by blast
qed

lemma bearingToCardinal_in_circle:
  assumes "0 \<le> b" "b \<le> 360"
  shows "\<exists>i<9. js_round (b / 45) = int i
           \<and> bearingToCardinal b = Some ([''N'', ''NE'', ''E'', ''SE'', ''S'', ''SW'', ''W'', ''NW''] ! (i mod 8))
           \<and> \<bar>b - 45 * real i\<bar> \<le> 45 / 2"
proof -
  define k where "k = js_round (b / 45)"
  have near: "\<bar>b / 45 - of_int k\<bar> \<le> 1 / 2"
    unfolding k_def by (rule js_round_nearest)
  have "0 \<le> b / 45" "b / 45 \<le> 8" using assms by simp_all
  with near have "- 1 / 2 \<le> real_of_int k" "real_of_int k \<le> 8 + 1 / 2" by linarith+
  then have kr: "0 \<le> k" "k < 9" by linarith+
  define i where "i = nat k"
  have ki: "k = int i" "i < 9" using kr by (simp_all add: i_def)
  have "bearingToCardinal b = Some (directions ! i)"
    using kr by (simp add: bearingToCardinal_def k_def [symmetric] i_def directions_def)
  then have lab: "bearingToCardinal b = Some ([''N'', ''NE'', ''E'', ''SE'', ''S'', ''SW'', ''W'', ''NW''] ! (i mod 8))"
    using directions_wrap [OF ki(2)] by simp
  have "\<bar>b - 45 * real i\<bar> \<le> 45 / 2"
    using near ki(1) by (simp add: field_simps)
  with lab ki show ?thesis unfolding k_def by blast
qed

lemma bearingToCardinal_examples:
  "bearingToCardinal 0 = Some ''N''" "bearingToCardinal 44 = Some ''NE''" "bearingToCardinal 22 = Some ''N''"
  "bearingToCardinal 46 = Some ''NE''" "bearingToCardinal 360 = Some ''N''"
  by (simp_all add: bearingToCardinal_def js_round_def directions_def floor_eq_iff)

lemma arrowLength_formula: "arrowLength v = 35 + (70 - 35) * min (v / 30) 1"
  by (simp add: arrowLength_def)

lemma arrowLength_mono: "v \<le> w \<Longrightarrow> arrowLength v \<le> arrowLength w"
  by (simp add: arrowLength_def min_def)

lemma arrowLength_clamped: "30 \<le> v \<Longrightarrow> arrowLength v = 70"
  by (simp add: arrowLength_def min_def)

lemma arrowLength_examples: "arrowLength 0 = 35" "arrowLength 30 = 70" "arrowLength 60 = 70"
  by (simp_all add: arrowLength_def)

section \<open>Braking detector and audio engine\<close>

lemma checkBraking_state:
  "isBraking (fst (checkBraking now thr fa s)) = (currentSpeed s > SPEED_THRESHOLD s \<and> fa < BRAKE_THRESHOLD s)"
  by (simp add: checkBraking_def Let_def split: prod.splits)

lemma checkBraking_enter:
  assumes "\<not> isBraking s" "currentSpeed s > SPEED_THRESHOLD s" "fa < BRAKE_THRESHOLD s"
  shows "snd (checkBraking now thr fa s)
           = [BrakeAlertRequested (snd (snd (playBrakeAlert now thr (audio s)))), IndicatorShown]"
    and "\<not> brakeIndicatorHidden (ui (fst (checkBraking now thr fa s)))"
    and "audio (fst (checkBraking now thr fa s)) = fst (snd (playBrakeAlert now thr (audio s)))"
  using assms by (simp_all add: checkBraking_def Let_def split: prod.splits)

lemma checkBraking_leave:
  assumes "isBraking s" "\<not> (currentSpeed s > SPEED_THRESHOLD s \<and> fa < BRAKE_THRESHOLD s)"
  shows "snd (checkBraking now thr fa s) = [IndicatorHidden]"
    and "brakeIndicatorHidden (ui (fst (checkBraking now thr fa s)))"
    and "audio (fst (checkBraking now thr fa s)) = audio s"
  using assms by (auto simp add: checkBraking_def Let_def split: prod.splits)

lemma checkBraking_stay:
  assumes "isBraking s = (currentSpeed s > SPEED_THRESHOLD s \<and> fa < BRAKE_THRESHOLD s)"
  shows "checkBraking now thr fa s = (s, [])"
  using assms by (auto simp add: checkBraking_def Let_def split: prod.splits)

lemma checkBraking_keeps:
  "currentSpeed (fst (checkBraking now thr fa s)) = currentSpeed s"
  "SPEED_THRESHOLD (fst (checkBraking now thr fa s)) = SPEED_THRESHOLD s"
  "BRAKE_THRESHOLD (fst (checkBraking now thr fa s)) = BRAKE_THRESHOLD s"
  by (simp_all add: checkBraking_def Let_def split: prod.splits)

lemma handleMotionUpdate_checks:
  "isBraking (fst (handleMotionUpdate now thr d s))
     = (currentSpeed s > SPEED_THRESHOLD s \<and> mot_forward d < BRAKE_THRESHOLD s)"
  "currentSpeed (fst (handleMotionUpdate now thr d s)) = currentSpeed s"
  "SPEED_THRESHOLD (fst (handleMotionUpdate now thr d s)) = SPEED_THRESHOLD s"
  "BRAKE_THRESHOLD (fst (handleMotionUpdate now thr d s)) = BRAKE_THRESHOLD s"
  by (simp_all add: handleMotionUpdate_def Let_def checkBraking_state checkBraking_keeps
      updateStatusIndicator_def)

lemma playBeep_refused:
  "\<not> isUnlocked e \<or> audioContext e = None \<or> now - lastBeepTime e < debounceMs e
     \<Longrightarrow> playBeep now thr f d w e = (False, e, None)"
  by (auto simp add: playBeep_def)

lemma playBeep_passes:
  assumes "isUnlocked e" "audioContext e \<noteq> None" "\<not> now - lastBeepTime e < debounceMs e"
  shows "playBeep now thr f d w e =
           (\<not> thr, e\<lparr>lastBeepTime := now\<rparr>,
            if thr then None else Some \<lparr>frequency = f, duration = d, shape = w\<rparr>)"
  using assms by (cases thr) (auto simp add: playBeep_def Let_def)


section \<open>Scenario machine of the simulator\<close>

lemma updatePosition_keeps:
  "speed (updatePosition s) = speed s"
  "scenario (updatePosition s) = scenario s"
  "scenarioTime (updatePosition s) = scenarioTime s"
  "acceleration (updatePosition s) = acceleration s"
  by (simp_all add: updatePosition_def Let_def)

lemma tick_accelerate:
  assumes "scenario s = Accelerate"
  shows "speed (fst (tick now d s)) = min (speed s + 0.5) 15"
    and "acceleration (fst (tick now d s)) = 2.5"
    and "scenario (fst (tick now d s)) = (if scenarioTime s + 1 / 30 > 5 then Cruise else Accelerate)"
    and "scenarioTime (fst (tick now d s)) = (if scenarioTime s + 1 / 30 > 5 then 0 else scenarioTime s + 1 / 30)"
  using assms by (simp_all add: tick_def updateScenario_def updatePosition_keeps Let_def)

lemma tick_cruise:
  assumes "scenario s = Cruise"
  shows "speed (fst (tick now d s)) = speed s"
  using assms by (simp add: tick_def updateScenario_def updatePosition_keeps Let_def)

lemma tick_brake:
  assumes "scenario s = Brake"
  shows "speed (fst (tick now d s)) = max (speed s - 2.5) 0"
    and "acceleration (fst (tick now d s)) = - 7"
  using assms by (simp_all add: tick_def updateScenario_def updatePosition_keeps Let_def)

lemma tick_stop:
  assumes "scenario s = Stop"
  shows "speed (fst (tick now d s)) = 0"
  using assms by (simp add: tick_def updateScenario_def updatePosition_keeps Let_def)

lemma tick_speed_range:
  assumes "0 \<le> speed s" "speed s \<le> 15"
  shows "0 \<le> speed (fst (tick now d s)) \<and> speed (fst (tick now d s)) \<le> 15"
proof (cases "scenario s")
  case Accelerate
  then show ?thesis using assms by (simp add: tick_accelerate(1))
next
  case Cruise
  then show ?thesis using assms by (simp add: tick_cruise)
next
  case Brake
  then show ?thesis using assms by (simp add: tick_brake(1))
next
  case Stop
  then show ?thesis by (simp add: tick_stop)
qed

lemma reachable_speed_range: "reachable s \<Longrightarrow> 0 \<le> speed s \<and> speed s \<le> 15"
proof (induction rule: reachable.induct)
  case reachable_new
  show ?case by (simp add: new_SensorSimulator_def)
next
  case (reachable_tick s now d)
  then show ?case using tick_speed_range by blast
qed

lemma ticks_append: "ticks (xs @ ys) s = ticks ys (ticks xs s)"
  by (induction xs arbitrary: s) auto

lemma accelerate_run:
  assumes "scenario s = Accelerate" "scenarioTime s = real k / 30" "speed s = min (real k / 2) 15"
    and "k + length run \<le> 150"
  shows "scenario (ticks run s) = Accelerate
         \<and> scenarioTime (ticks run s) = real (k + length run) / 30
         \<and> speed (ticks run s) = min (real (k + length run) / 2) 15"
  using assms
proof (induction run arbitrary: s k)
  case Nil
  then show ?case by simp
next
  case (Cons x run)
  obtain now d where x: "x = (now, d)" by (cases x)
  let ?s = "fst (tick now d s)"
  have k: "k < 150" using Cons.prems(4) by simp
  then have notyet: "\<not> scenarioTime s + 1 / 30 > 5"
    using Cons.prems(2) by (simp add: field_simps)
  have a: "scenario ?s = Accelerate"
    using Cons.prems(1) notyet by (simp add: tick_accelerate(3))
  have b: "scenarioTime ?s = real (Suc k) / 30"
    using Cons.prems(1,2) notyet by (simp add: tick_accelerate(4) field_simps)
  have c: "speed ?s = min (real (Suc k) / 2) 15"
    using Cons.prems(1,3) by (simp add: tick_accelerate(1) min_def field_simps)
  have "Suc k + length run \<le> 150" using Cons.prems(4) by simp
  from Cons.IH [OF a b c this] show ?case by (simp add: x)
qed

lemma accelerate_150:
  assumes "scenario s = Accelerate" "scenarioTime s = 0" "speed s = 0" "length run = 150"
  shows "scenario (ticks run s) = Accelerate" "scenarioTime (ticks run s) = 5" "speed (ticks run s) = 15"
  using accelerate_run [of s 0 run] assms by simp_all

lemma accelerate_151:
  assumes "scenario s = Accelerate" "scenarioTime s = 0" "speed s = 0" "length run = 150"
  shows "scenario (ticks (run @ [x]) s) = Cruise" "speed (ticks (run @ [x]) s) = 15"
    "scenarioTime (ticks (run @ [x]) s) = 0"
proof -
  obtain now d where x: "x = (now, d)" by (cases x)
  have "ticks (run @ [x]) s = fst (tick now d (ticks run s))"
    by (simp add: ticks_append x)
  then show "scenario (ticks (run @ [x]) s) = Cruise" "speed (ticks (run @ [x]) s) = 15"
    "scenarioTime (ticks (run @ [x]) s) = 0"
    using accelerate_150 [OF assms] by (simp_all add: tick_accelerate)
qed


section \<open>Aggregation handlers\<close>

lemma updateVelocityArrow_fields:
  "currentSpeed (updateVelocityArrow s) = currentSpeed s"
  "currentBearing (updateVelocityArrow s) = currentBearing s"
  "currentAzimuth (updateVelocityArrow s) = currentAzimuth s"
  "velocityArrow (ui (updateVelocityArrow s)) = normalize360 (binary64 (currentBearing s - currentAzimuth s))"
  "northArrow (ui (updateVelocityArrow s)) = northArrow (ui s)"
  "velocityPolygon (ui (updateVelocityArrow s)) =
     (100 - arrowLength (currentSpeed s), 100 - arrowLength (currentSpeed s) + 35,
      100 - arrowLength (currentSpeed s) + 25)"
  by (simp_all add: updateVelocityArrow_def Let_def)

lemma handleOrientationUpdate_dropped:
  "\<not> isFinite (ori_azimuth d) \<Longrightarrow> handleOrientationUpdate d s = s"
  by (simp add: handleOrientationUpdate_def)

lemma handleOrientationUpdate_stored:
  assumes "ori_azimuth d = Finite a"
  shows "currentAzimuth (handleOrientationUpdate d s) = normalize360 a"
    and "currentBearing (handleOrientationUpdate d s) = currentBearing s"
    and "currentSpeed (handleOrientationUpdate d s) = currentSpeed s"
    and "northArrow (ui (handleOrientationUpdate d s)) = - normalize360 a"
    and "velocityArrow (ui (handleOrientationUpdate d s))
           = normalize360 (binary64 (currentBearing s - normalize360 a))"
  using assms by (simp_all add: handleOrientationUpdate_def Let_def updateVelocityArrow_fields)

lemma handleOrientationUpdate_null:
  assumes "ori_azimuth d = Null"
  shows "currentAzimuth (handleOrientationUpdate d s) = 0"
  using assms
  by (simp add: handleOrientationUpdate_def Let_def updateVelocityArrow_fields normalize360_values)

lemma handleGpsUpdate_fields:
  "currentSpeed (handleGpsUpdate g s) = or_zero (gps_speed g)"
  "currentBearing (handleGpsUpdate g s) = or_zero (gps_bearing g)"
  "currentAzimuth (handleGpsUpdate g s) = currentAzimuth s"
  "velocityArrow (ui (handleGpsUpdate g s))
     = normalize360 (binary64 (or_zero (gps_bearing g) - currentAzimuth s))"
  "northArrow (ui (handleGpsUpdate g s)) = northArrow (ui s)"
  "latitudeText (ui (handleGpsUpdate g s)) = toDMS (gps_latitude g) True"
  "longitudeText (ui (handleGpsUpdate g s)) = toDMS (gps_longitude g) False"
  by (simp_all add: handleGpsUpdate_def updateStatusIndicator_def updateVelocityArrow_def Let_def
      split: option.splits)

lemma handleGpsUpdate_bearing_shown:
  "bearingText (ui (handleGpsUpdate g s)) =
     (case gps_bearing g of None \<Rightarrow> bearingText (ui s) | Some b \<Rightarrow> js_round b)"
  "bearingDirection (ui (handleGpsUpdate g s)) =
     (case gps_bearing g of None \<Rightarrow> bearingDirection (ui s) | Some b \<Rightarrow> bearingToCardinal b)"
  by (simp_all add: handleGpsUpdate_def updateStatusIndicator_def updateVelocityArrow_def Let_def
      split: option.splits)

lemma positionCallback_stores:
  "lastPosition (fst (positionCallback p m)) =
     Some \<lparr>gps_latitude = c_latitude (coords p), gps_longitude = c_longitude (coords p),
           gps_speed = Some (or_zero (c_speed (coords p))),
           gps_bearing = Some (or_zero (c_heading (coords p))),
           gps_accuracy = c_accuracy (coords p), gps_timestamp = pos_timestamp p\<rparr>"
  "snd (positionCallback p m) =
     (if onGpsUpdate m
      then [GpsSample \<lparr>gps_latitude = c_latitude (coords p), gps_longitude = c_longitude (coords p),
                       gps_speed = Some (or_zero (c_speed (coords p))),
                       gps_bearing = Some (or_zero (c_heading (coords p))),
                       gps_accuracy = c_accuracy (coords p), gps_timestamp = pos_timestamp p\<rparr>]
      else [])"
  by (simp_all add: positionCallback_def Let_def)

lemma handleGpsUpdate_keeps:
  "isBraking (handleGpsUpdate g s) = isBraking s"
  "SPEED_THRESHOLD (handleGpsUpdate g s) = SPEED_THRESHOLD s"
  "BRAKE_THRESHOLD (handleGpsUpdate g s) = BRAKE_THRESHOLD s"
  "audio (handleGpsUpdate g s) = audio s"
  by (simp_all add: handleGpsUpdate_def updateStatusIndicator_def updateVelocityArrow_def Let_def
      split: option.splits)

section \<open>Claims\<close>

text \<open>
  C1. The braking detector has the two states NORMAL and BRAKING (\<open>isBraking\<close>). After
  each motion sample the state is BRAKING exactly when the current speed exceeds the speed
  threshold and the forward acceleration is below the brake threshold. Exactly on the
  step from NORMAL to BRAKING it asks the audio engine for one brake alert and shows the
  indicator; exactly on the step from BRAKING to NORMAL it hides the indicator; a step
  that keeps the state does nothing. With thresholds 0.5 and -2.0 and speed 5, a forward
  acceleration of -3.0 leads from NORMAL to BRAKING, and a following 0 back to NORMAL.
\<close>

theorem braking_detector_two_states:
  "isBraking (fst (checkBraking now thr fa s))
     = (currentSpeed s > SPEED_THRESHOLD s \<and> fa < BRAKE_THRESHOLD s)
   \<and> (\<not> isBraking s \<and> isBraking (fst (checkBraking now thr fa s)) \<longrightarrow>
        snd (checkBraking now thr fa s)
          = [BrakeAlertRequested (snd (snd (playBrakeAlert now thr (audio s)))), IndicatorShown]
        \<and> \<not> brakeIndicatorHidden (ui (fst (checkBraking now thr fa s))))
   \<and> (isBraking s \<and> \<not> isBraking (fst (checkBraking now thr fa s)) \<longrightarrow>
        snd (checkBraking now thr fa s) = [IndicatorHidden]
        \<and> brakeIndicatorHidden (ui (fst (checkBraking now thr fa s))))
   \<and> (isBraking (fst (checkBraking now thr fa s)) = isBraking s \<longrightarrow>
        checkBraking now thr fa s = (s, []))
   \<and> (SPEED_THRESHOLD s = 0.5 \<and> BRAKE_THRESHOLD s = - 2.0 \<and> currentSpeed s = 5 \<and> \<not> isBraking s
        \<and> mot_forward d1 = - 3.0 \<and> mot_forward d2 = 0 \<longrightarrow>
        isBraking (fst (handleMotionUpdate now thr d1 s))
        \<and> \<not> isBraking (fst (handleMotionUpdate now' thr' d2 (fst (handleMotionUpdate now thr d1 s)))))"
proof -
  let ?c = "currentSpeed s > SPEED_THRESHOLD s \<and> fa < BRAKE_THRESHOLD s"
  have st: "isBraking (fst (checkBraking now thr fa s)) = ?c"
    by (rule checkBraking_state)
  have enter: "\<not> isBraking s \<and> isBraking (fst (checkBraking now thr fa s)) \<longrightarrow>
        snd (checkBraking now thr fa s)
          = [BrakeAlertRequested (snd (snd (playBrakeAlert now thr (audio s)))), IndicatorShown]
        \<and> \<not> brakeIndicatorHidden (ui (fst (checkBraking now thr fa s)))"
    unfolding st using checkBraking_enter(1,2) [of s fa now thr] by blast
  have leave: "isBraking s \<and> \<not> isBraking (fst (checkBraking now thr fa s)) \<longrightarrow>
        snd (checkBraking now thr fa s) = [IndicatorHidden]
        \<and> brakeIndicatorHidden (ui (fst (checkBraking now thr fa s)))"
    unfolding st using checkBraking_leave(1,2) [of s fa now thr] by blast
  have stay: "isBraking (fst (checkBraking now thr fa s)) = isBraking s \<longrightarrow>
        checkBraking now thr fa s = (s, [])"
    unfolding st using checkBraking_stay [of s fa now thr] by blast
  have run: "SPEED_THRESHOLD s = 0.5 \<and> BRAKE_THRESHOLD s = - 2.0 \<and> currentSpeed s = 5 \<and> \<not> isBraking s
        \<and> mot_forward d1 = - 3.0 \<and> mot_forward d2 = 0 \<longrightarrow>
        isBraking (fst (handleMotionUpdate now thr d1 s))
        \<and> \<not> isBraking (fst (handleMotionUpdate now' thr' d2 (fst (handleMotionUpdate now thr d1 s))))"
    by (simp add: handleMotionUpdate_checks)
  from st enter leave stay run show ?thesis by blast
qed

theorem braking_detector_two_states_witness:
  "SPEED_THRESHOLD (handleGpsUpdate (gps_fix (Some 5) (Some 90)) (new_VelocitatsApp blank_page)) = 0.5
   \<and> BRAKE_THRESHOLD (handleGpsUpdate (gps_fix (Some 5) (Some 90)) (new_VelocitatsApp blank_page)) = - 2.0
   \<and> currentSpeed (handleGpsUpdate (gps_fix (Some 5) (Some 90)) (new_VelocitatsApp blank_page)) = 5
   \<and> \<not> isBraking (handleGpsUpdate (gps_fix (Some 5) (Some 90)) (new_VelocitatsApp blank_page))
   \<and> mot_forward (motion_of (- 3.0)) = - 3.0 \<and> mot_forward (motion_of 0) = 0
   \<and> isBraking (fst (handleMotionUpdate 1000 False (motion_of (- 3.0))
        (handleGpsUpdate (gps_fix (Some 5) (Some 90)) (new_VelocitatsApp blank_page))))
   \<and> \<not> isBraking (fst (handleMotionUpdate 1033 False (motion_of 0)
        (fst (handleMotionUpdate 1000 False (motion_of (- 3.0))
          (handleGpsUpdate (gps_fix (Some 5) (Some 90)) (new_VelocitatsApp blank_page))))))
   \<and> snd (checkBraking 1000 False (- 3.0)
        (handleGpsUpdate (gps_fix (Some 5) (Some 90)) (new_VelocitatsApp blank_page)))
       = [BrakeAlertRequested None, IndicatorShown]
   \<and> snd (checkBraking 1033 False 0 (fst (checkBraking 1000 False (- 3.0)
        (handleGpsUpdate (gps_fix (Some 5) (Some 90)) (new_VelocitatsApp blank_page)))))
       = [IndicatorHidden]
   \<and> snd (checkBraking 1033 False 0
        (handleGpsUpdate (gps_fix (Some 5) (Some 90)) (new_VelocitatsApp blank_page))) = []"
proof -
  let ?s = "handleGpsUpdate (gps_fix (Some 5) (Some 90)) (new_VelocitatsApp blank_page)"
  let ?b = "fst (checkBraking 1000 False (- 3.0) ?s)"
  have s: "SPEED_THRESHOLD ?s = 0.5" "BRAKE_THRESHOLD ?s = - 2.0" "currentSpeed ?s = 5"
    "\<not> isBraking ?s" "audio ?s = new_AudioEngine"
    by (simp_all add: handleGpsUpdate_fields handleGpsUpdate_keeps gps_fix_def new_VelocitatsApp_def)
  have m: "mot_forward (motion_of (- 3.0)) = - 3.0" "mot_forward (motion_of 0) = 0"
    by (simp_all add: motion_of_def)
  have locked: "snd (snd (playBrakeAlert 1000 False new_AudioEngine)) = None"
    by (simp add: playBrakeAlert_def playBeep_def new_AudioEngine_def)
  have b: "isBraking ?b" "currentSpeed ?b = 5" "SPEED_THRESHOLD ?b = 0.5" "BRAKE_THRESHOLD ?b = - 2.0"
    using s by (simp_all add: checkBraking_state checkBraking_keeps)
  note enter = braking_detector_two_states
    [of 1000 False "- 3.0" ?s "motion_of (- 3.0)" "motion_of 0" 1033 False]
  note leave = braking_detector_two_states
    [of 1033 False 0 ?b "motion_of (- 3.0)" "motion_of 0" 1033 False]
  note stay = braking_detector_two_states
    [of 1033 False 0 ?s "motion_of (- 3.0)" "motion_of 0" 1033 False]
  have e1: "isBraking ?b" by (rule b(1))
  have e2: "snd (checkBraking 1000 False (- 3.0) ?s) = [BrakeAlertRequested None, IndicatorShown]"
    using enter s(4,5) e1 locked by simp
  have l1: "\<not> isBraking (fst (checkBraking 1033 False 0 ?b))"
    using leave b by simp
  have l2: "snd (checkBraking 1033 False 0 ?b) = [IndicatorHidden]"
    using leave l1 b(1) by blast
  have k1: "\<not> isBraking (fst (checkBraking 1033 False 0 ?s))"
    using stay s by simp
  have k2: "snd (checkBraking 1033 False 0 ?s) = []"
    using stay k1 s(4) by simp
  have r: "isBraking (fst (handleMotionUpdate 1000 False (motion_of (- 3.0)) ?s))
     \<and> \<not> isBraking (fst (handleMotionUpdate 1033 False (motion_of 0)
          (fst (handleMotionUpdate 1000 False (motion_of (- 3.0)) ?s))))"
    using enter s m by blast
  from s(1-4) m r e2 l2 k2 show ?thesis by blast
qed

text \<open>
  C2 (amended). \<open>playBeep\<close> returns false and leaves the engine as it was, the time of
  the last beep included, when the engine is not unlocked or when fewer than
  \<open>debounceMs\<close> (1000 in a new engine) milliseconds have passed since the last beep was
  started. Hence, on an unlocked engine, a call that follows a call which passed this
  test by less than \<open>debounceMs\<close> returns false, starts no tone and changes nothing; a
  call that follows it by \<open>debounceMs\<close> or more passes as well, and both return true and
  start their tones when the sound calls do not throw.
\<close>

theorem playBeep_debounced:
  "debounceMs new_AudioEngine = 1000
   \<and> (\<not> isUnlocked e \<or> audioContext e = None \<or> t1 - lastBeepTime e < debounceMs e
      \<longrightarrow> playBeep t1 thr1 f1 d1 w1 e = (False, e, None))
   \<and> (isUnlocked e \<and> audioContext e \<noteq> None \<and> debounceMs e \<le> t1 - lastBeepTime e
        \<and> t2 - t1 < debounceMs e
      \<longrightarrow> playBeep t2 thr2 f2 d2 w2 (fst (snd (playBeep t1 thr1 f1 d1 w1 e)))
            = (False, fst (snd (playBeep t1 thr1 f1 d1 w1 e)), None))
   \<and> (isUnlocked e \<and> audioContext e \<noteq> None \<and> debounceMs e \<le> t1 - lastBeepTime e
        \<and> debounceMs e \<le> t2 - t1 \<and> \<not> thr1 \<and> \<not> thr2
      \<longrightarrow> fst (playBeep t1 thr1 f1 d1 w1 e)
          \<and> snd (snd (playBeep t1 thr1 f1 d1 w1 e)) = Some \<lparr>frequency = f1, duration = d1, shape = w1\<rparr>
          \<and> fst (playBeep t2 thr2 f2 d2 w2 (fst (snd (playBeep t1 thr1 f1 d1 w1 e))))
          \<and> snd (snd (playBeep t2 thr2 f2 d2 w2 (fst (snd (playBeep t1 thr1 f1 d1 w1 e)))))
              = Some \<lparr>frequency = f2, duration = d2, shape = w2\<rparr>)"
proof -
  have n: "debounceMs new_AudioEngine = 1000"
    by (simp add: new_AudioEngine_def)
  have a: "\<not> isUnlocked e \<or> audioContext e = None \<or> t1 - lastBeepTime e < debounceMs e
      \<longrightarrow> playBeep t1 thr1 f1 d1 w1 e = (False, e, None)"
    using playBeep_refused [of e t1 thr1 f1 d1 w1] by blast
  have b: "isUnlocked e \<and> audioContext e \<noteq> None \<and> debounceMs e \<le> t1 - lastBeepTime e
        \<and> t2 - t1 < debounceMs e
      \<longrightarrow> playBeep t2 thr2 f2 d2 w2 (fst (snd (playBeep t1 thr1 f1 d1 w1 e)))
            = (False, fst (snd (playBeep t1 thr1 f1 d1 w1 e)), None)"
    by (auto simp add: playBeep_passes playBeep_refused)
  have c: "isUnlocked e \<and> audioContext e \<noteq> None \<and> debounceMs e \<le> t1 - lastBeepTime e
        \<and> debounceMs e \<le> t2 - t1 \<and> \<not> thr1 \<and> \<not> thr2
      \<longrightarrow> fst (playBeep t1 thr1 f1 d1 w1 e)
          \<and> snd (snd (playBeep t1 thr1 f1 d1 w1 e)) = Some \<lparr>frequency = f1, duration = d1, shape = w1\<rparr>
          \<and> fst (playBeep t2 thr2 f2 d2 w2 (fst (snd (playBeep t1 thr1 f1 d1 w1 e))))
          \<and> snd (snd (playBeep t2 thr2 f2 d2 w2 (fst (snd (playBeep t1 thr1 f1 d1 w1 e)))))
              = Some \<lparr>frequency = f2, duration = d2, shape = w2\<rparr>"
    by (auto simp add: playBeep_passes)
  from n a b c show ?thesis by blast
qed

theorem playBeep_debounced_witness:
  "\<not> isUnlocked new_AudioEngine
   \<and> playBeep 5000 False 1200 100 Sine new_AudioEngine = (False, new_AudioEngine, None)
   \<and> isUnlocked (snd (unlock UnlockCompletes new_AudioEngine))
   \<and> audioContext (snd (unlock UnlockCompletes new_AudioEngine)) \<noteq> None
   \<and> debounceMs (snd (unlock UnlockCompletes new_AudioEngine))
        \<le> 5000 - lastBeepTime (snd (unlock UnlockCompletes new_AudioEngine))
   \<and> (5600::int) - 5000 < debounceMs (snd (unlock UnlockCompletes new_AudioEngine))
   \<and> fst (playBeep 5600 False 880 150 Sine
        (fst (snd (playBeep 5000 False 1200 100 Sine (snd (unlock UnlockCompletes new_AudioEngine))))))
       = False
   \<and> debounceMs (snd (unlock UnlockCompletes new_AudioEngine)) \<le> 6500 - 5000
   \<and> fst (playBeep 5000 False 1200 100 Sine (snd (unlock UnlockCompletes new_AudioEngine)))
   \<and> fst (playBeep 6500 False 880 150 Sine
        (fst (snd (playBeep 5000 False 1200 100 Sine (snd (unlock UnlockCompletes new_AudioEngine))))))"
proof -
  let ?e = "snd (unlock UnlockCompletes new_AudioEngine)"
  have locked: "\<not> isUnlocked new_AudioEngine"
    by (simp add: new_AudioEngine_def)
  have e: "isUnlocked ?e" "audioContext ?e \<noteq> None" "debounceMs ?e \<le> 5000 - lastBeepTime ?e"
    "(5600::int) - 5000 < debounceMs ?e" "debounceMs ?e \<le> 6500 - 5000"
    by (simp_all add: new_AudioEngine_def)
  have r0: "playBeep 5000 False 1200 100 Sine new_AudioEngine = (False, new_AudioEngine, None)"
    using playBeep_debounced [of new_AudioEngine 5000 False 1200 100 Sine] locked by blast
  have r1: "fst (playBeep 5600 False 880 150 Sine (fst (snd (playBeep 5000 False 1200 100 Sine ?e)))) = False"
    using playBeep_debounced [of ?e 5000 False 1200 100 Sine 5600 False 880 150 Sine] e(1-4) by simp
  have r2: "fst (playBeep 5000 False 1200 100 Sine ?e)
      \<and> fst (playBeep 6500 False 880 150 Sine (fst (snd (playBeep 5000 False 1200 100 Sine ?e))))"
    using playBeep_debounced [of ?e 5000 False 1200 100 Sine 6500 False 880 150 Sine] e(1-3,5) by blast
  from locked r0 e r1 r2 show ?thesis by blast
qed

theorem playBeep_any_two_calls_counterexample:
  "isUnlocked (fst (snd (playBeep 5000 False 1200 100 Sine (snd (unlock UnlockCompletes new_AudioEngine)))))
   \<and> fst (playBrakeAlert 5600 False
            (fst (snd (playBeep 5000 False 1200 100 Sine (snd (unlock UnlockCompletes new_AudioEngine)))))) = False
   \<and> (6100::int) - 5600 < debounceMs (fst (snd (playBrakeAlert 5600 False
            (fst (snd (playBeep 5000 False 1200 100 Sine (snd (unlock UnlockCompletes new_AudioEngine))))))))
   \<and> playBrakeAlert 6100 False (fst (snd (playBrakeAlert 5600 False
            (fst (snd (playBeep 5000 False 1200 100 Sine (snd (unlock UnlockCompletes new_AudioEngine))))))))
      = (True, \<lparr>audioContext = Some AudioContext, isUnlocked = True, lastBeepTime = 6100, debounceMs = 1000\<rparr>,
         Some \<lparr>frequency = 880, duration = 150, shape = Sine\<rparr>)"
  by (simp add: playBrakeAlert_def playBeep_def new_AudioEngine_def)



text \<open>
  C4 (amended). For every prior state and every position sample without a bearing, the
  handler stores bearing 0 (the bearing text on the page keeps its last content); a
  missing speed is stored as 0, a present one as it is; the latitude and longitude shown
  are replaced by those of the sample whatever the sample holds. The live source builds
  its sample the same way, with 0 for a missing speed or heading and the coordinates
  copied, so that the sample it hands on never holds an absent speed or bearing.
\<close>

theorem position_sample_defaults:
  "(gps_bearing g = None \<longrightarrow>
      currentBearing (handleGpsUpdate g s) = 0
      \<and> bearingText (ui (handleGpsUpdate g s)) = bearingText (ui s)
      \<and> bearingDirection (ui (handleGpsUpdate g s)) = bearingDirection (ui s))
   \<and> (gps_speed g = None \<longrightarrow> currentSpeed (handleGpsUpdate g s) = 0)
   \<and> (gps_speed g = Some v \<longrightarrow> currentSpeed (handleGpsUpdate g s) = v)
   \<and> latitudeText (ui (handleGpsUpdate g s)) = toDMS (gps_latitude g) True
   \<and> longitudeText (ui (handleGpsUpdate g s)) = toDMS (gps_longitude g) False
   \<and> lastPosition (fst (positionCallback p m)) =
        Some \<lparr>gps_latitude = c_latitude (coords p), gps_longitude = c_longitude (coords p),
              gps_speed = Some (or_zero (c_speed (coords p))),
              gps_bearing = Some (or_zero (c_heading (coords p))),
              gps_accuracy = c_accuracy (coords p), gps_timestamp = pos_timestamp p\<rparr>
   \<and> snd (positionCallback p m) =
        (if onGpsUpdate m
         then [GpsSample \<lparr>gps_latitude = c_latitude (coords p), gps_longitude = c_longitude (coords p),
                          gps_speed = Some (or_zero (c_speed (coords p))),
                          gps_bearing = Some (or_zero (c_heading (coords p))),
                          gps_accuracy = c_accuracy (coords p), gps_timestamp = pos_timestamp p\<rparr>]
         else [])
   \<and> or_zero None = 0"
  by (simp add: handleGpsUpdate_fields handleGpsUpdate_bearing_shown positionCallback_stores)

theorem position_sample_defaults_witness:
  "gps_bearing (gps_fix None None) = None \<and> gps_speed (gps_fix None None) = None
   \<and> currentBearing (handleGpsUpdate (gps_fix (Some 10) (Some 90)) (new_VelocitatsApp blank_page)) = 90
   \<and> currentBearing (handleGpsUpdate (gps_fix None None)
        (handleGpsUpdate (gps_fix (Some 10) (Some 90)) (new_VelocitatsApp blank_page))) = 0
   \<and> currentSpeed (handleGpsUpdate (gps_fix None None)
        (handleGpsUpdate (gps_fix (Some 10) (Some 90)) (new_VelocitatsApp blank_page))) = 0
   \<and> gps_speed (gps_fix (Some 10) (Some 90)) = Some 10
   \<and> currentSpeed (handleGpsUpdate (gps_fix (Some 10) (Some 90)) (new_VelocitatsApp blank_page)) = 10"
proof -
  let ?s0 = "new_VelocitatsApp blank_page"
  let ?s1 = "handleGpsUpdate (gps_fix (Some 10) (Some 90)) ?s0"
  have h: "gps_bearing (gps_fix None None) = None" "gps_speed (gps_fix None None) = None"
    "gps_speed (gps_fix (Some 10) (Some 90)) = Some 10"
    by (simp_all add: gps_fix_def)
  have b1: "currentBearing ?s1 = 90"
    by (simp add: handleGpsUpdate_fields gps_fix_def)
  have a: "currentBearing (handleGpsUpdate (gps_fix None None) ?s1) = 0
      \<and> currentSpeed (handleGpsUpdate (gps_fix None None) ?s1) = 0"
    using position_sample_defaults [of "gps_fix None None" ?s1] h(1,2) by blast
  have c: "currentSpeed ?s1 = 10"
    using position_sample_defaults [of "gps_fix (Some 10) (Some 90)" ?s0 10] h(3) by blast
  from h b1 a c show ?thesis by blast
qed

theorem bearing_retained_counterexample:
  "gps_bearing (gps_fix (Some 10) None) = None
   \<and> currentBearing (handleGpsUpdate (gps_fix (Some 10) (Some 90)) (new_VelocitatsApp blank_page)) = 90
   \<and> currentBearing (handleGpsUpdate (gps_fix (Some 10) None)
        (handleGpsUpdate (gps_fix (Some 10) (Some 90)) (new_VelocitatsApp blank_page))) = 0"
  by (simp add: handleGpsUpdate_fields gps_fix_def)

text \<open>
  C5 (amended). An orientation sample whose azimuth is not finite changes nothing: the
  handler returns the state it was given, stored azimuth and both rotations included.
  For a finite azimuth the stored azimuth is the normalisation of the input as the
  program computes it, with the inner sum rounded to binary64: it lies in [0, 360), and
  it differs from the input by a whole multiple of 360 up to the rounding error of that
  sum, at most \<open>1 / 2 ^ 44\<close>. So -90 is stored as 270, and \<open>- (1 / 2 ^ 70)\<close> is
  stored as 0. A null azimuth passes \<open>isFinite\<close> and is stored as 0.
\<close>

theorem orientation_sample_azimuth:
  "(\<not> isFinite (ori_azimuth d) \<longrightarrow> handleOrientationUpdate d s = s)
   \<and> (ori_azimuth d = Finite a \<longrightarrow>
        currentAzimuth (handleOrientationUpdate d s) = normalize360 a
        \<and> 0 \<le> normalize360 a \<and> normalize360 a < 360
        \<and> (\<exists>k::int. \<exists>err. \<bar>err\<bar> \<le> 1 / 2 ^ 44 \<and> normalize360 a = a + err + 360 * of_int k))
   \<and> (ori_azimuth d = Null \<longrightarrow> currentAzimuth (handleOrientationUpdate d s) = 0)
   \<and> normalize360 (- 90) = 270 \<and> normalize360 (- (1 / 2 ^ 70)) = 0"
  using handleOrientationUpdate_dropped [of d s] handleOrientationUpdate_stored(1) [of d a s]
    handleOrientationUpdate_null [of d s] normalize360_range [of a] normalize360_near [of a]
    normalize360_values(3) normalize360_below_zero
  by blast

theorem orientation_sample_azimuth_witness:
  "\<not> isFinite (ori_azimuth (azimuth_of NaN))
   \<and> handleOrientationUpdate (azimuth_of NaN) (new_VelocitatsApp blank_page) = new_VelocitatsApp blank_page
   \<and> \<not> isFinite (ori_azimuth (azimuth_of PosInfinity))
   \<and> handleOrientationUpdate (azimuth_of PosInfinity) (new_VelocitatsApp blank_page) = new_VelocitatsApp blank_page
   \<and> ori_azimuth (azimuth_of (Finite (- 90))) = Finite (- 90)
   \<and> currentAzimuth (handleOrientationUpdate (azimuth_of (Finite (- 90))) (new_VelocitatsApp blank_page)) = 270
   \<and> ori_azimuth (azimuth_of Null) = Null
   \<and> currentAzimuth (handleOrientationUpdate (azimuth_of Null) (new_VelocitatsApp blank_page)) = 0"
proof -
  let ?s = "new_VelocitatsApp blank_page"
  have h: "\<not> isFinite (ori_azimuth (azimuth_of NaN))" "\<not> isFinite (ori_azimuth (azimuth_of PosInfinity))"
    "ori_azimuth (azimuth_of (Finite (- 90))) = Finite (- 90)" "ori_azimuth (azimuth_of Null) = Null"
    by (simp_all add: azimuth_of_def)
  have n: "handleOrientationUpdate (azimuth_of NaN) ?s = ?s"
    using orientation_sample_azimuth [of "azimuth_of NaN" ?s] h(1) by blast
  have i: "handleOrientationUpdate (azimuth_of PosInfinity) ?s = ?s"
    using orientation_sample_azimuth [of "azimuth_of PosInfinity" ?s] h(2) by blast
  have f: "currentAzimuth (handleOrientationUpdate (azimuth_of (Finite (- 90))) ?s) = 270"
    using orientation_sample_azimuth [of "azimuth_of (Finite (- 90))" ?s "- 90"] h(3) by simp
  have z: "currentAzimuth (handleOrientationUpdate (azimuth_of Null) ?s) = 0"
    using orientation_sample_azimuth [of "azimuth_of Null" ?s] h(4) by blast
  from h n i f z show ?thesis by blast
qed

theorem azimuth_congruence_counterexample:
  "ori_azimuth (azimuth_of (Finite (- (1 / 2 ^ 70)))) = Finite (- (1 / 2 ^ 70))
   \<and> currentAzimuth (handleOrientationUpdate (azimuth_of (Finite (- (1 / 2 ^ 70))))
        (new_VelocitatsApp blank_page)) = 0
   \<and> (0 - (- (1 / 2 ^ 70))) / 360 \<notin> (\<int> :: real set)"
proof -
  have a: "ori_azimuth (azimuth_of (Finite (- (1 / 2 ^ 70)))) = Finite (- (1 / 2 ^ 70))"
    by (simp add: azimuth_of_def)
  have b: "currentAzimuth (handleOrientationUpdate (azimuth_of (Finite (- (1 / 2 ^ 70))))
        (new_VelocitatsApp blank_page)) = 0"
    by (simp only: handleOrientationUpdate_stored(1) [OF a] normalize360_below_zero)
  have c: "(0 - (- (1 / 2 ^ 70))) / 360 \<notin> (\<int> :: real set)"
    by (rule not_whole_between) simp_all
  from a b c show ?thesis by blast
qed

text \<open>
  C8 (amended). For a bearing between 0 and 360 degrees \<open>bearingToCardinal\<close> gives the
  label of the nearest multiple of 45 degrees among N, NE, E, SE, S, SW, W, NW, the
  ninth sector (360) being N again. So 0 gives N, 22 gives N, 44 gives NE (44 is nearer
  to 45 than to 0), 46 gives NE and 360 gives N.
\<close>

theorem bearingToCardinal_nearest_sector:
  "(0 \<le> b \<and> b \<le> 360 \<longrightarrow>
      (\<exists>i. i < 9 \<and> js_round (b / 45) = int i
         \<and> bearingToCardinal b = Some ([''N'', ''NE'', ''E'', ''SE'', ''S'', ''SW'', ''W'', ''NW''] ! (i mod 8))
         \<and> \<bar>b - 45 * real i\<bar> \<le> 45 / 2))
   \<and> bearingToCardinal 0 = Some ''N'' \<and> bearingToCardinal 22 = Some ''N''
   \<and> bearingToCardinal 44 = Some ''NE'' \<and> bearingToCardinal 46 = Some ''NE''
   \<and> bearingToCardinal 360 = Some ''N''"
  using bearingToCardinal_in_circle [of b] bearingToCardinal_examples by blast

theorem bearingToCardinal_nearest_sector_witness:
  "(0::real) \<le> 100 \<and> (100::real) \<le> 360 \<and> bearingToCardinal 100 = Some ''E''"
proof -
  have range: "(0::real) \<le> 100 \<and> (100::real) \<le> 360" by simp
  with bearingToCardinal_nearest_sector [of 100]
  have "\<exists>i. i < 9 \<and> js_round (100 / 45) = int i
         \<and> bearingToCardinal 100 = Some ([''N'', ''NE'', ''E'', ''SE'', ''S'', ''SW'', ''W'', ''NW''] ! (i mod 8))
         \<and> \<bar>100 - 45 * real i\<bar> \<le> 45 / 2"
    by blast
  then obtain i where i: "i < 9"
    and lab: "bearingToCardinal 100 = Some ([''N'', ''NE'', ''E'', ''SE'', ''S'', ''SW'', ''W'', ''NW''] ! (i mod 8))"
    and near: "\<bar>100 - 45 * real i\<bar> \<le> 45 / 2"
    by blast
  from near have "1 < i" "i < 3" by linarith+
  then have "i = 2" by simp
  with lab show ?thesis by simp
qed

theorem bearingToCardinal_44_counterexample:
  "bearingToCardinal 44 \<noteq> Some ''N''"
  by (simp add: bearingToCardinal_examples)

text \<open>
  C9. The length of the velocity pointer is 35 + (70 - 35) * min (speed / 30) 1. It never
  decreases when the speed grows and stays at 70 from 30 m/s on: the length is 35 at
  speed 0, 70 at speed 30 and 70 at speed 60. The polygon drawn has its tip at 100 minus
  this length.
\<close>

theorem velocity_pointer_length:
  "arrowLength v = 35 + (70 - 35) * min (v / 30) 1
   \<and> (v \<le> w \<longrightarrow> arrowLength v \<le> arrowLength w)
   \<and> (30 \<le> v \<longrightarrow> arrowLength v = 70)
   \<and> arrowLength 0 = 35 \<and> arrowLength 30 = 70 \<and> arrowLength 60 = 70
   \<and> fst (velocityPolygon (ui (updateVelocityArrow s))) = 100 - arrowLength (currentSpeed s)"
  using arrowLength_mono [of v w] arrowLength_clamped [of v]
  by (simp add: arrowLength_formula arrowLength_examples updateVelocityArrow_fields)

theorem velocity_pointer_length_witness:
  "(10::real) \<le> 20 \<and> arrowLength 10 \<le> arrowLength 20 \<and> (30::real) \<le> 45 \<and> arrowLength 45 = 70"
proof -
  have "arrowLength 10 \<le> arrowLength 20"
    using velocity_pointer_length [of 10 20] by simp
  moreover have "arrowLength 45 = 70"
    using velocity_pointer_length [of 45 45] by simp
  ultimately show ?thesis by simp
qed

text \<open>
  C6 (amended). In state accelerate every tick adds 0.5 m/s to the speed, capped at
  15 m/s, and sets the forward acceleration to +2.5. Started in accelerate with speed 0
  and no time spent in the state, the machine is still in accelerate after each of the
  first 150 ticks, with speed min (n / 2) 15 after n of them, so 15 after 150: the test
  \<open>scenarioTime > 5\<close> is not passed before the 151st tick, which moves the machine to
  cruise, with speed 15.
\<close>

theorem accelerate_scenario:
  "(scenario s = Accelerate \<longrightarrow>
      speed (fst (tick now d s)) = min (speed s + 0.5) 15
      \<and> acceleration (fst (tick now d s)) = 2.5)
   \<and> (scenario s = Accelerate \<and> speed s = 0 \<and> scenarioTime s = 0 \<and> length run \<le> 150 \<longrightarrow>
        scenario (ticks run s) = Accelerate
        \<and> speed (ticks run s) = min (real (length run) / 2) 15)
   \<and> (scenario s = Accelerate \<and> speed s = 0 \<and> scenarioTime s = 0 \<and> length run = 150 \<longrightarrow>
        scenario (ticks run s) = Accelerate \<and> speed (ticks run s) = 15
        \<and> scenario (ticks (run @ [x]) s) = Cruise \<and> speed (ticks (run @ [x]) s) = 15)"
proof -
  have step: "scenario s = Accelerate \<longrightarrow>
      speed (fst (tick now d s)) = min (speed s + 0.5) 15
      \<and> acceleration (fst (tick now d s)) = 2.5"
    by (simp add: tick_accelerate)
  have early: "scenario s = Accelerate \<and> speed s = 0 \<and> scenarioTime s = 0 \<and> length run \<le> 150 \<longrightarrow>
        scenario (ticks run s) = Accelerate
        \<and> speed (ticks run s) = min (real (length run) / 2) 15"
    using accelerate_run [of s 0 run] by simp
  have late: "scenario s = Accelerate \<and> speed s = 0 \<and> scenarioTime s = 0 \<and> length run = 150 \<longrightarrow>
        scenario (ticks run s) = Accelerate \<and> speed (ticks run s) = 15
        \<and> scenario (ticks (run @ [x]) s) = Cruise \<and> speed (ticks (run @ [x]) s) = 15"
    using accelerate_150 [of s run] accelerate_151 [of s run x] by blast
  from step early late show ?thesis by blast
qed

theorem accelerate_scenario_witness:
  "scenario (new_SensorSimulator\<lparr>scenario := Accelerate\<rparr>) = Accelerate
   \<and> speed (new_SensorSimulator\<lparr>scenario := Accelerate\<rparr>) = 0
   \<and> scenarioTime (new_SensorSimulator\<lparr>scenario := Accelerate\<rparr>) = 0
   \<and> length (replicate 150 (0::int, draws_of 0.5)) = 150
   \<and> speed (fst (tick 0 (draws_of 0.5) (new_SensorSimulator\<lparr>scenario := Accelerate\<rparr>))) = 0.5
   \<and> acceleration (fst (tick 0 (draws_of 0.5) (new_SensorSimulator\<lparr>scenario := Accelerate\<rparr>))) = 2.5
   \<and> scenario (ticks (replicate 150 (0, draws_of 0.5)) (new_SensorSimulator\<lparr>scenario := Accelerate\<rparr>))
       = Accelerate
   \<and> speed (ticks (replicate 150 (0, draws_of 0.5)) (new_SensorSimulator\<lparr>scenario := Accelerate\<rparr>)) = 15
   \<and> scenario (ticks (replicate 150 (0, draws_of 0.5) @ [(0, draws_of 0.5)])
        (new_SensorSimulator\<lparr>scenario := Accelerate\<rparr>)) = Cruise
   \<and> speed (ticks (replicate 150 (0, draws_of 0.5) @ [(0, draws_of 0.5)])
        (new_SensorSimulator\<lparr>scenario := Accelerate\<rparr>)) = 15"
proof -
  let ?s = "new_SensorSimulator\<lparr>scenario := Accelerate\<rparr>"
  let ?run = "replicate 150 (0::int, draws_of 0.5)"
  have h: "scenario ?s = Accelerate" "speed ?s = 0" "scenarioTime ?s = 0" "length ?run = 150"
    by (simp_all add: new_SensorSimulator_def)
  note t = accelerate_scenario [of ?s 0 "draws_of 0.5" ?run "(0, draws_of 0.5)"]
  have one: "speed (fst (tick 0 (draws_of 0.5) ?s)) = 0.5
      \<and> acceleration (fst (tick 0 (draws_of 0.5) ?s)) = 2.5"
    using t h(1,2) by simp
  have many: "scenario (ticks ?run ?s) = Accelerate \<and> speed (ticks ?run ?s) = 15
      \<and> scenario (ticks (?run @ [(0, draws_of 0.5)]) ?s) = Cruise
      \<and> speed (ticks (?run @ [(0, draws_of 0.5)]) ?s) = 15"
    using t h by blast
  from h one many show ?thesis by blast
qed

theorem accelerate_150_ticks_counterexample:
  "scenario (new_SensorSimulator\<lparr>scenario := Accelerate\<rparr>) = Accelerate
   \<and> speed (new_SensorSimulator\<lparr>scenario := Accelerate\<rparr>) = 0
   \<and> scenarioTime (new_SensorSimulator\<lparr>scenario := Accelerate\<rparr>) = 0
   \<and> length (replicate 150 (0::int, draws_of 0.5)) = 150
   \<and> scenario (ticks (replicate 150 (0, draws_of 0.5)) (new_SensorSimulator\<lparr>scenario := Accelerate\<rparr>))
       \<noteq> Cruise"
proof -
  let ?s = "new_SensorSimulator\<lparr>scenario := Accelerate\<rparr>"
  let ?run = "replicate 150 (0::int, draws_of 0.5)"
  have h: "scenario ?s = Accelerate" "scenarioTime ?s = 0" "speed ?s = 0" "length ?run = 150"
    by (simp_all add: new_SensorSimulator_def)
  from accelerate_150(1) [OF h] have "scenario (ticks ?run ?s) \<noteq> Cruise" by simp
  with h show ?thesis by blast
qed

text \<open>
  C10. In every state that ticks lead to from the constructed simulator (speed 0), the
  speed lies between 0 and 15: a tick in accelerate caps it at 15, in brake floors it at
  0, in stop sets it to 0, and in cruise leaves it as it is.
\<close>

theorem simulated_speed_bounded:
  "(reachable s \<longrightarrow> 0 \<le> speed s \<and> speed s \<le> 15)
   \<and> speed new_SensorSimulator = 0
   \<and> speed (fst (tick now d s)) =
       (case scenario s of
          Accelerate \<Rightarrow> min (speed s + 0.5) 15
        | Cruise \<Rightarrow> speed s
        | Brake \<Rightarrow> max (speed s - 2.5) 0
        | Stop \<Rightarrow> 0)"
proof -
  have "speed (fst (tick now d s)) =
       (case scenario s of
          Accelerate \<Rightarrow> min (speed s + 0.5) 15
        | Cruise \<Rightarrow> speed s
        | Brake \<Rightarrow> max (speed s - 2.5) 0
        | Stop \<Rightarrow> 0)"
    by (cases "scenario s") (simp_all add: tick_accelerate tick_cruise tick_brake tick_stop)
  moreover have "speed new_SensorSimulator = 0"
    by (simp add: new_SensorSimulator_def)
  ultimately show ?thesis using reachable_speed_range [of s] by blast
qed

theorem simulated_speed_bounded_witness:
  "reachable (fst (tick 33 (draws_of 0.5) (fst (tick 0 (draws_of 0.5) new_SensorSimulator))))
   \<and> 0 \<le> speed (fst (tick 33 (draws_of 0.5) (fst (tick 0 (draws_of 0.5) new_SensorSimulator))))
   \<and> speed (fst (tick 33 (draws_of 0.5) (fst (tick 0 (draws_of 0.5) new_SensorSimulator)))) \<le> 15"
proof -
  have r: "reachable (fst (tick 33 (draws_of 0.5) (fst (tick 0 (draws_of 0.5) new_SensorSimulator))))"
    by (intro reachable_tick reachable_new)
  with simulated_speed_bounded
    [of "fst (tick 33 (draws_of 0.5) (fst (tick 0 (draws_of 0.5) new_SensorSimulator)))"]
  show ?thesis by blast
qed

lemma sensors_stop_keeps:
  "windowListeners (sensors_stop m) = windowListeners m"
  "pendingTimeouts (sensors_stop m) = pendingTimeouts m"
  "onGpsUpdate (sensors_stop m) = onGpsUpdate m"
  "onOrientationUpdate (sensors_stop m) = onOrientationUpdate m"
  "onMotionUpdate (sensors_stop m) = onMotionUpdate m"
  by (simp_all add: sensors_stop_def split: option.splits)

text \<open>
  C7. After \<open>stop\<close> no further sample should reach the callbacks. The simulator's
  \<open>stop\<close> clears its interval, and the live source's \<open>stop\<close> clears the position
  watch; but the live source's \<open>stop\<close> leaves the orientation and motion listeners on
  the window and the liveness timeouts pending, so orientation and motion samples are
  still delivered after it. Here a live source is started as \<open>initialize\<close> starts it
  where no permission has to be asked, stopped, and then sent one event of each kind.
\<close>

theorem stop_leaves_window_listeners:
  "windowListeners (sensors_stop m) = windowListeners m
   \<and> pendingTimeouts (sensors_stop m) = pendingTimeouts m
   \<and> snd (dispatch (PositionFix 1 (position_of (Some 5) (Some 90)))
        (sensors_stop (startOrientation True (startMotion (startGps 1 (subscribe new_SensorManager))))))
       = []
   \<and> snd (dispatch (MotionFired (motion_event_of (- 3)))
        (sensors_stop (startOrientation True (startMotion (startGps 1 (subscribe new_SensorManager))))))
       = [MotionSample \<lparr>mot_x = 0, mot_y = - 3, mot_z = 0, mot_magnitude = 3, mot_forward = - 3\<rparr>]
   \<and> snd (dispatch (OrientationFired Deviceorientationabsolute (compass_event_of 90))
        (sensors_stop (startOrientation True (startMotion (startGps 1 (subscribe new_SensorManager))))))
       = [OrientationSample \<lparr>ori_azimuth = Finite 90, ori_initialAzimuth = Finite 90,
                              ori_beta = Some 0, ori_gamma = Some 0\<rparr>]
   \<and> snd (interval_fires 1 33 (draws_of 0.5) (simulator_stop (start 1 (subscribe new_SensorSimulator))))
       = []"
proof -
  let ?m = "sensors_stop (startOrientation True (startMotion (startGps 1 (subscribe new_SensorManager))))"
  have m: "?m = new_SensorManager
      \<lparr>onGpsUpdate := True, onOrientationUpdate := True, onMotionUpdate := True,
       hasMotionPermission := True, hasOrientationPermission := True,
       windowListeners := [Deviceorientationabsolute, Devicemotion],
       pendingTimeouts := [Deviceorientation, Devicemotion], usingAbsolute := True\<rparr>"
    by (simp add: sensors_stop_def startOrientation_def startMotion_def startGps_def subscribe_def
        new_SensorManager_def)
  have p: "snd (dispatch (PositionFix 1 (position_of (Some 5) (Some 90))) ?m) = []"
    unfolding m by (simp add: new_SensorManager_def)
  have a: "snd (dispatch (MotionFired (motion_event_of (- 3))) ?m)
      = [MotionSample \<lparr>mot_x = 0, mot_y = - 3, mot_z = 0, mot_magnitude = 3, mot_forward = - 3\<rparr>]"
    unfolding m by (simp add: new_SensorManager_def handleMotion_def motion_event_of_def Let_def)
  have b: "snd (dispatch (OrientationFired Deviceorientationabsolute (compass_event_of 90)) ?m)
      = [OrientationSample \<lparr>ori_azimuth = Finite 90, ori_initialAzimuth = Finite 90,
                              ori_beta = Some 0, ori_gamma = Some 0\<rparr>]"
    unfolding m by (simp add: new_SensorManager_def handleOrientation_def compass_event_of_def Let_def)
  have c: "snd (interval_fires 1 33 (draws_of 0.5) (simulator_stop (start 1 (subscribe new_SensorSimulator)))) = []"
    by (simp add: interval_fires_def simulator_stop_def start_def subscribe_def new_SensorSimulator_def)
  from sensors_stop_keeps(1,2) [of m] p a b c show ?thesis by blast
qed

end
